theory Spec2Isabelle
  imports Complex_Main
begin

section \<open>Python failures as values\<close>

text \<open>
  Every exception the modelled code can raise is a value of this type; a function that
  can raise returns \<open>py_error + 'a\<close> with \<open>Inl\<close> for the exception.
  \<open>HTTPException\<close> carries the status code and the detail text.
\<close>

datatype py_error =
    IndexError
  | ZeroDivisionError
  | TypeError
  | AttributeError
  | KeyError
  | HTTPException int string
  | UpstreamError string

text \<open>Running the next step on the value of the last one, unless that one raised.\<close>

definition and_then :: "py_error + 'a \<Rightarrow> ('a \<Rightarrow> py_error + 'b) \<Rightarrow> py_error + 'b" where
  "and_then r f = (case r of Inl e \<Rightarrow> Inl e | Inr v \<Rightarrow> f v)"

section \<open>Key manager (src/core/api_key_manager.py)\<close>

text \<open>
  \<open>APIKeyManager\<close>: the credential list, the cooldown period, the circular cursor and
  the dict from a failed key to the time of its failure. Time stamps are the values of
  \<open>time.time()\<close>, read here as real numbers; the clock value is an argument of every
  operation that reads it.
\<close>

record key_manager =
  api_keys :: "string list"
  cooldown_period :: real
  current_index :: nat
  failed_keys :: "string \<rightharpoonup> real"

definition init_key_manager :: "string list \<Rightarrow> real \<Rightarrow> key_manager" where
  "init_key_manager ks cd =
     \<lparr>api_keys = ks, cooldown_period = cd, current_index = 0, failed_keys = Map.empty\<rparr>"

text \<open>
  Lines 39-45 of \<open>get_next_key\<close>: every entry with
  \<open>current_time - fail_time > cooldown_period\<close> is deleted.
\<close>

definition expire_cooldowns :: "real \<Rightarrow> key_manager \<Rightarrow> key_manager" where
  "expire_cooldowns current_time m =
     m\<lparr>failed_keys := (\<lambda>key. case failed_keys m key of
                                  None \<Rightarrow> None
                                | Some fail_time \<Rightarrow>
                                    if current_time - fail_time > cooldown_period m
                                    then None else Some fail_time)\<rparr>"

text \<open>
  Lines 48-61: the scan loop. Indexing the list out of range raises \<open>IndexError\<close> and
  the modulus by an empty list's length raises \<open>ZeroDivisionError\<close>, in the order the
  statements of the body run.
\<close>

function scan_keys :: "nat \<Rightarrow> key_manager \<Rightarrow> py_error + (string option \<times> key_manager)" where
  "scan_keys attempts m =
     (if attempts < length (api_keys m) then
        (if \<not> current_index m < length (api_keys m) then Inl IndexError
         else if length (api_keys m) = 0 then Inl ZeroDivisionError
         else
           let key = api_keys m ! current_index m;
               m' = m\<lparr>current_index := (current_index m + 1) mod length (api_keys m)\<rparr>
           in if failed_keys m' key = None then Inr (Some key, m')
              else scan_keys (attempts + 1) m')
      else Inr (None, m))"
  by pat_completeness auto
termination
  by (relation "measure (\<lambda>(attempts, m). length (api_keys m) - attempts)") auto

declare scan_keys.simps [simp del]

definition get_next_key :: "real \<Rightarrow> key_manager \<Rightarrow> py_error + (string option \<times> key_manager)" where
  "get_next_key current_time m = scan_keys 0 (expire_cooldowns current_time m)"

definition mark_key_failed :: "real \<Rightarrow> string \<Rightarrow> key_manager \<Rightarrow> key_manager" where
  "mark_key_failed current_time api_key m =
     m\<lparr>failed_keys := (failed_keys m)(api_key \<mapsto> current_time)\<rparr>"

text \<open>Lines 76-88: a key counts when it has no entry or its entry has expired.\<close>

definition key_available :: "real \<Rightarrow> key_manager \<Rightarrow> string \<Rightarrow> bool" where
  "key_available current_time m key =
     (case failed_keys m key of
        None \<Rightarrow> True
      | Some fail_time \<Rightarrow> current_time - fail_time > cooldown_period m)"

definition get_available_key_count :: "real \<Rightarrow> key_manager \<Rightarrow> nat" where
  "get_available_key_count current_time m =
     length (filter (key_available current_time m) (api_keys m))"

definition reset_all_failures :: "key_manager \<Rightarrow> key_manager" where
  "reset_all_failures m = m\<lparr>failed_keys := Map.empty\<rparr>"

text \<open>
  A credential is in cooldown at a time when it has a failure entry that the test of
  the source does not count as expired.
\<close>

definition in_cooldown :: "real \<Rightarrow> key_manager \<Rightarrow> string \<Rightarrow> bool" where
  "in_cooldown current_time m key = (\<not> key_available current_time m key)"

text \<open>
  The \<open>j\<close>-th candidate of a scan that starts at the cursor and goes round the list, and
  the manager with its cursor moved \<open>j\<close> places on.
\<close>

definition slot :: "key_manager \<Rightarrow> nat \<Rightarrow> string" where
  "slot m j = api_keys m ! ((current_index m + j) mod length (api_keys m))"

definition advance :: "key_manager \<Rightarrow> nat \<Rightarrow> key_manager" where
  "advance m j = m\<lparr>current_index := (current_index m + j) mod length (api_keys m)\<rparr>"

section \<open>JSON values and the library functions taken as parameters\<close>

text \<open>
  The dicts the converters read come from JSON. A dict is an association list, read
  with \<open>map_of\<close> as \<open>dict.get\<close> reads it; numbers are integers.
\<close>

datatype json =
    JNull
  | JBool bool
  | JInt int
  | JStr string
  | JList "json list"
  | JDict "(string \<times> json) list"

text \<open>Python's truth value of a JSON value (\<open>if x:\<close>, \<open>filter(None, xs)\<close>).\<close>

fun truthy :: "json \<Rightarrow> bool" where
  "truthy JNull = False"
| "truthy (JBool b) = b"
| "truthy (JInt n) = (n \<noteq> 0)"
| "truthy (JStr s) = (s \<noteq> [])"
| "truthy (JList xs) = (xs \<noteq> [])"
| "truthy (JDict d) = (d \<noteq> [])"

fun is_JStr :: "json \<Rightarrow> bool" where
  "is_JStr (JStr s) = True"
| "is_JStr v = False"

fun str_val :: "json \<Rightarrow> string" where
  "str_val (JStr s) = s"
| "str_val v = []"

text \<open>
  \<open>json.dumps\<close>, \<open>str\<close> and \<open>json.loads\<close> belong to the Python library, not to the
  repository: the model takes them as parameters. \<open>loads\<close> answers \<open>None\<close> where
  \<open>json.loads\<close> raises \<open>JSONDecodeError\<close>; \<open>str_exc\<close> is \<open>str\<close> of an exception.
\<close>

record py_lib =
  dumps :: "json \<Rightarrow> string"
  str_of :: "json \<Rightarrow> string"
  loads :: "string \<Rightarrow> json option"
  str_exc :: "py_error \<Rightarrow> string"

text \<open>\<open>sep.join(parts)\<close> and \<open>str.strip()\<close>.\<close>

fun join :: "string \<Rightarrow> string list \<Rightarrow> string" where
  "join sep [] = []"
| "join sep [x] = x"
| "join sep (x # y # ys) = x @ sep @ join sep (y # ys)"

definition is_py_space :: "char \<Rightarrow> bool" where
  "is_py_space c = (c \<in> set [CHR '' '', CHR 0x09, CHR 0x0A, CHR 0x0B, CHR 0x0C, CHR 0x0D,
                              CHR 0x1C, CHR 0x1D, CHR 0x1E, CHR 0x1F, CHR 0x85, CHR 0xA0])"

definition strip :: "string \<Rightarrow> string" where
  "strip s = rev (dropWhile is_py_space (rev (dropWhile is_py_space s)))"

section \<open>Constants and configuration\<close>

text \<open>
  Modelled from the spec: the module \<open>src/core/constants.py\<close> is not among the sources.
  The values are those the spec's event and message tables give.
\<close>

definition ROLE_USER :: string where "ROLE_USER = ''user''"
definition ROLE_ASSISTANT :: string where "ROLE_ASSISTANT = ''assistant''"
definition ROLE_SYSTEM :: string where "ROLE_SYSTEM = ''system''"
definition ROLE_TOOL :: string where "ROLE_TOOL = ''tool''"
definition TOOL_FUNCTION :: string where "TOOL_FUNCTION = ''function''"
definition CONTENT_TEXT :: string where "CONTENT_TEXT = ''text''"
definition CONTENT_IMAGE :: string where "CONTENT_IMAGE = ''image''"
definition STOP_END_TURN :: string where "STOP_END_TURN = ''end_turn''"
definition STOP_MAX_TOKENS :: string where "STOP_MAX_TOKENS = ''max_tokens''"
definition STOP_TOOL_USE :: string where "STOP_TOOL_USE = ''tool_use''"

text \<open>
  Modelled from the spec: the attribute \<open>supports_prompt_cache\<close> of the configuration
  object. \<open>Config\<close> in \<open>src/core/config.py\<close> sets \<open>max_tokens_limit\<close> and
  \<open>min_tokens_limit\<close> and never sets \<open>supports_prompt_cache\<close>; the spec gives the
  object the converters consume as
  \<open>{supports_prompt_cache: bool, max_tokens_limit: int, min_tokens_limit: int}\<close>, and the
  tests set the attribute on the object before they call the converters. The field is
  \<open>None\<close> on an object without the attribute, where reading it raises
  \<open>AttributeError\<close>, and \<open>Some b\<close> on an object on which it has been set to \<open>b\<close>.
\<close>

record config =
  supports_prompt_cache :: "bool option"
  max_tokens_limit :: int
  min_tokens_limit :: int

text \<open>\<open>config.supports_prompt_cache\<close>, as the converters read it.\<close>

definition read_cache_flag :: "config \<Rightarrow> py_error + bool" where
  "read_cache_flag cfg =
     (case supports_prompt_cache cfg of None \<Rightarrow> Inl AttributeError | Some b \<Rightarrow> Inr b)"

text \<open>
  The object \<open>Config()\<close> of \<open>config.py\<close> builds, from the values of the environment
  variables \<open>MAX_TOKENS_LIMIT\<close> and \<open>MIN_TOKENS_LIMIT\<close> when they are set: the two limits
  with their defaults, and no cache attribute.
\<close>

definition config_from_env :: "int option \<Rightarrow> int option \<Rightarrow> config" where
  "config_from_env max_env min_env =
     \<lparr>supports_prompt_cache = None,
      max_tokens_limit = (case max_env of None \<Rightarrow> 4096 | Some v \<Rightarrow> v),
      min_tokens_limit = (case min_env of None \<Rightarrow> 100 | Some v \<Rightarrow> v)\<rparr>"

section \<open>Request converter (src/conversion/request_converter.py)\<close>

subsection \<open>Source-side request\<close>

text \<open>
  A content block is one of the four block classes; the class fixes the \<open>type\<close> tag.
  The \<open>source\<close> of an image, the \<open>input\<close> of a tool use and the \<open>content\<close> of a tool
  result are JSON values.
\<close>

datatype content_block =
    Text string
  | Image json
  | ToolUse string string json
  | ToolResult string json

datatype message_content = Str string | Blocks "content_block list"

record claude_message =
  msg_role :: string
  msg_content :: message_content

datatype system_field = NoSystem | SysStr string | SysBlocks "(string \<times> string) list"

record tool_def =
  tool_name :: string
  tool_description :: "string option"
  input_schema :: json

record claude_request =
  req_model :: string
  req_messages :: "claude_message list"
  req_system :: system_field
  req_max_tokens :: int
  req_temperature :: real
  req_top_p :: "real option"
  req_stop_sequences :: "string list option"
  req_tools :: "tool_def list option"
  req_tool_choice :: "(string \<times> json) list option"
  req_stream :: bool

subsection \<open>Target-side request\<close>

text \<open>
  A content part of a target message: \<open>{"type": "text", "text": t}\<close>, with the
  \<open>type\<close> of its \<open>cache_control\<close> entry when it has one, or
  \<open>{"type": "image_url", "image_url": {"url": u}}\<close>.
\<close>

datatype openai_part = TextPart string "string option" | ImageUrlPart string

datatype openai_content = OStr string | OParts "openai_part list" | ONone | ORaw json

record openai_tool_call =
  call_id :: string
  call_type :: string
  call_name :: string
  call_arguments :: string

record openai_message =
  role :: string
  content :: openai_content
  tool_call_id :: "string option"
  tool_calls :: "openai_tool_call list option"

record openai_tool =
  fn_name :: string
  fn_description :: string
  fn_parameters :: json

datatype openai_tool_choice = ChoiceAuto | ChoiceFunction json

record openai_request =
  model :: string
  messages :: "openai_message list"
  max_tokens :: int
  temperature :: real
  stream :: bool
  stop :: "string list option"
  top_p :: "real option"
  tools :: "openai_tool list option"
  tool_choice :: "openai_tool_choice option"

definition plain_message :: "string \<Rightarrow> openai_content \<Rightarrow> openai_message" where
  "plain_message r c = \<lparr>role = r, content = c, tool_call_id = None, tool_calls = None\<rparr>"

subsection \<open>parse_tool_result_content\<close>

text \<open>
  The element one part of a list-shaped content adds to \<open>result_parts\<close> (lines
  260-279). \<open>part.get("text", "")\<close> is whatever JSON value the dict holds there.
\<close>

fun tool_result_part :: "py_lib \<Rightarrow> json \<Rightarrow> json" where
  "tool_result_part lib (JDict part) =
     (if map_of part ''type'' = Some (JStr CONTENT_TEXT) then
        (case map_of part ''text'' of None \<Rightarrow> JStr [] | Some v \<Rightarrow> v)
      else if map_of part ''type'' = Some (JStr CONTENT_IMAGE) then
        JStr ''(see following user message for image)''
      else
        (case map_of part ''text'' of
           Some v \<Rightarrow> v
         | None \<Rightarrow> JStr (dumps lib (JDict part))))"
| "tool_result_part lib (JStr s) = JStr s"
| "tool_result_part lib v = JStr (str_of lib v)"

text \<open>
  \<open>"\n".join(filter(None, result_parts))\<close>: the falsy parts are dropped, and \<open>join\<close>
  raises \<open>TypeError\<close> when a part that is left is not a string.
\<close>

definition join_truthy :: "string \<Rightarrow> json list \<Rightarrow> py_error + string" where
  "join_truthy sep parts =
     (let kept = filter truthy parts in
      if list_all is_JStr kept then Inr (join sep (map str_val kept)) else Inl TypeError)"

fun parse_tool_result_content :: "py_lib \<Rightarrow> json \<Rightarrow> py_error + json" where
  "parse_tool_result_content lib JNull = Inr (JStr [])"
| "parse_tool_result_content lib (JStr s) = Inr (JStr s)"
| "parse_tool_result_content lib (JList parts) =
     (case join_truthy [CHR 0x0A] (map (tool_result_part lib) parts) of
        Inl e \<Rightarrow> Inl e
      | Inr s \<Rightarrow> Inr (JStr s))"
| "parse_tool_result_content lib (JDict d) =
     (if map_of d ''type'' = Some (JStr CONTENT_TEXT) then
        Inr (case map_of d ''text'' of None \<Rightarrow> JStr [] | Some v \<Rightarrow> v)
      else Inr (JStr (dumps lib (JDict d))))"
| "parse_tool_result_content lib v = Inr (JStr (str_of lib v))"

text \<open>The value stored under \<open>"content"\<close> of a target message, from a JSON value.\<close>

fun content_of_json :: "json \<Rightarrow> openai_content" where
  "content_of_json (JStr s) = OStr s"
| "content_of_json JNull = ONone"
| "content_of_json v = ORaw v"

subsection \<open>_convert_content_blocks_to_openai\<close>

text \<open>\<open>f"{v}"\<close> of a JSON value: a string as it is, any other value through \<open>str\<close>.\<close>

fun fmt :: "py_lib \<Rightarrow> json \<Rightarrow> string" where
  "fmt lib (JStr s) = s"
| "fmt lib v = str_of lib v"

fun convert_block :: "py_lib \<Rightarrow> content_block \<Rightarrow> openai_part list" where
  "convert_block lib (Text t) = [TextPart t None]"
| "convert_block lib (Image (JDict source)) =
     (if map_of source ''type'' = Some (JStr ''base64'')
         \<and> map_of source ''media_type'' \<noteq> None \<and> map_of source ''data'' \<noteq> None
      then [ImageUrlPart (''data:'' @ fmt lib (the (map_of source ''media_type''))
                            @ '';base64,'' @ fmt lib (the (map_of source ''data'')))]
      else [])"
| "convert_block lib (Image v) = []"
| "convert_block lib (ToolUse i n inp) = []"
| "convert_block lib (ToolResult i c) = []"

fun is_text_part :: "openai_part \<Rightarrow> bool" where
  "is_text_part (TextPart t c) = True"
| "is_text_part (ImageUrlPart u) = False"

definition convert_content_blocks_to_openai :: "py_lib \<Rightarrow> content_block list \<Rightarrow> openai_content" where
  "convert_content_blocks_to_openai lib content_blocks =
     (if content_blocks = [] then OStr []
      else
        (case concat (map (convert_block lib) content_blocks) of
           [TextPart t c] \<Rightarrow> OStr t
         | openai_content \<Rightarrow> OParts openai_content))"

subsection \<open>Messages\<close>

fun is_tool_result :: "content_block \<Rightarrow> bool" where
  "is_tool_result (ToolResult i c) = True"
| "is_tool_result b = False"

fun is_tool_use :: "content_block \<Rightarrow> bool" where
  "is_tool_use (ToolUse i n inp) = True"
| "is_tool_use b = False"

fun is_text_or_image :: "content_block \<Rightarrow> bool" where
  "is_text_or_image (Text t) = True"
| "is_text_or_image (Image s) = True"
| "is_text_or_image b = False"

text \<open>Lines 44-50: the target message of one tool result.\<close>

fun tool_result_message :: "py_lib \<Rightarrow> content_block \<Rightarrow> py_error + openai_message" where
  "tool_result_message lib (ToolResult tool_use_id c) =
     (case parse_tool_result_content lib c of
        Inl e \<Rightarrow> Inl e
      | Inr v \<Rightarrow> Inr \<lparr>role = ROLE_TOOL, content = content_of_json v,
                      tool_call_id = Some tool_use_id, tool_calls = None\<rparr>)"
| "tool_result_message lib b = Inl AttributeError"

text \<open>A loop that appends one message per element and stops at the first exception.\<close>

fun collect :: "('a \<Rightarrow> py_error + 'b) \<Rightarrow> 'a list \<Rightarrow> py_error + 'b list" where
  "collect f [] = Inr []"
| "collect f (x # xs) =
     (case f x of
        Inl e \<Rightarrow> Inl e
      | Inr y \<Rightarrow> (case collect f xs of Inl e \<Rightarrow> Inl e | Inr ys \<Rightarrow> Inr (y # ys)))"

fun block_texts :: "content_block list \<Rightarrow> string list" where
  "block_texts [] = []"
| "block_texts (Text t # bs) = t # block_texts bs"
| "block_texts (b # bs) = block_texts bs"

fun tool_use_call :: "py_lib \<Rightarrow> content_block \<Rightarrow> openai_tool_call list" where
  "tool_use_call lib (ToolUse i n inp) =
     [\<lparr>call_id = i, call_type = TOOL_FUNCTION, call_name = n, call_arguments = dumps lib inp\<rparr>]"
| "tool_use_call lib b = []"

text \<open>
  Lines 24-102: the target messages of one source message. A message whose content is
  a list and whose role is neither user nor assistant adds nothing.
\<close>

definition convert_message :: "py_lib \<Rightarrow> claude_message \<Rightarrow> py_error + openai_message list" where
  "convert_message lib anthropic_message =
     (case msg_content anthropic_message of
        Str s \<Rightarrow> Inr [plain_message (msg_role anthropic_message) (OStr s)]
      | Blocks parts \<Rightarrow>
          if msg_role anthropic_message = ROLE_USER then
            (let tool_messages = filter is_tool_result parts;
                 non_tool_messages = filter is_text_or_image parts
             in case collect (tool_result_message lib) tool_messages of
                  Inl e \<Rightarrow> Inl e
                | Inr tms \<Rightarrow>
                    Inr (tms @ (if non_tool_messages \<noteq> []
                                then [plain_message ROLE_USER
                                        (convert_content_blocks_to_openai lib non_tool_messages)]
                                else [])))
          else if msg_role anthropic_message = ROLE_ASSISTANT then
            (let tool_messages = filter is_tool_use parts;
                 non_tool_messages = filter is_text_or_image parts;
                 content_parts = block_texts non_tool_messages;
                 c = (if non_tool_messages \<noteq> [] \<and> content_parts \<noteq> []
                      then OStr (concat content_parts) else ONone);
                 calls = concat (map (tool_use_call lib) tool_messages)
             in Inr [\<lparr>role = ROLE_ASSISTANT, content = c, tool_call_id = None,
                      tool_calls = (if calls \<noteq> [] then Some calls else None)\<rparr>])
          else Inr [])"

fun convert_messages :: "py_lib \<Rightarrow> claude_message list \<Rightarrow> py_error + openai_message list" where
  "convert_messages lib [] = Inr []"
| "convert_messages lib (m # ms) =
     (case convert_message lib m of
        Inl e \<Rightarrow> Inl e
      | Inr xs \<Rightarrow> (case convert_messages lib ms of Inl e \<Rightarrow> Inl e | Inr ys \<Rightarrow> Inr (xs @ ys)))"

subsection \<open>System message\<close>

definition system_text :: "system_field \<Rightarrow> string" where
  "system_text s =
     (case s of
        NoSystem \<Rightarrow> []
      | SysStr t \<Rightarrow> t
      | SysBlocks blocks \<Rightarrow>
          join [CHR 0x0A, CHR 0x0A] (map snd (filter (\<lambda>b. fst b = CONTENT_TEXT) blocks)))"

fun system_truthy :: "system_field \<Rightarrow> bool" where
  "system_truthy NoSystem = False"
| "system_truthy (SysStr t) = (t \<noteq> [])"
| "system_truthy (SysBlocks blocks) = (blocks \<noteq> [])"

text \<open>
  Lines 105-137: the system message, inserted at position 0 when there is one. The cache
  flag is read (line 125) only when there is one.
\<close>

definition add_system ::
  "config \<Rightarrow> system_field \<Rightarrow> openai_message list \<Rightarrow> py_error + openai_message list" where
  "add_system cfg s openai_messages =
     (if system_truthy s \<and> strip (system_text s) \<noteq> [] then
        and_then (read_cache_flag cfg)
          (\<lambda>flag. Inr ((if flag
                        then plain_message ROLE_SYSTEM
                               (OParts [TextPart (strip (system_text s)) (Some ''ephemeral'')])
                        else plain_message ROLE_SYSTEM (OStr (strip (system_text s))))
                       # openai_messages))
      else Inr openai_messages)"

subsection \<open>Prompt-cache markers\<close>

text \<open>
  Lines 152-160, on the content list of one message: the last text part gets the
  marker; when there is no text part, a part \<open>"..."\<close> with the marker is appended.
\<close>

fun mark_last_text :: "openai_part list \<Rightarrow> openai_part list" where
  "mark_last_text [] = []"
| "mark_last_text (TextPart t c # ps) =
     (if list_ex is_text_part ps then TextPart t c # mark_last_text ps
      else TextPart t (Some ''ephemeral'') # ps)"
| "mark_last_text (ImageUrlPart u # ps) = ImageUrlPart u # mark_last_text ps"

definition mark_parts :: "openai_part list \<Rightarrow> openai_part list" where
  "mark_parts ps =
     (if list_ex is_text_part ps then mark_last_text ps
      else ps @ [TextPart ''...'' (Some ''ephemeral'')])"

text \<open>Lines 146-160, on one of the selected messages.\<close>

definition add_cache_control :: "openai_message \<Rightarrow> openai_message" where
  "add_cache_control msg =
     (case content msg of
        OStr s \<Rightarrow> msg\<lparr>content := OParts (mark_parts [TextPart s None])\<rparr>
      | OParts ps \<Rightarrow> msg\<lparr>content := OParts (mark_parts ps)\<rparr>
      | ONone \<Rightarrow> msg
      | ORaw v \<Rightarrow> msg)"

text \<open>
  Lines 142-145. The selected messages are objects of the list itself, so changing them
  changes the list at their positions: the positions of the user messages, and of these
  the last two (all of them when there are fewer than two).
\<close>

definition user_positions :: "openai_message list \<Rightarrow> nat list" where
  "user_positions ms = filter (\<lambda>i. role (ms ! i) = ROLE_USER) [0..<length ms]"

definition last_two :: "'a list \<Rightarrow> 'a list" where
  "last_two xs = (if length xs \<ge> 2 then drop (length xs - 2) xs else xs)"

definition cache_last_two_users :: "openai_message list \<Rightarrow> openai_message list" where
  "cache_last_two_users ms =
     map (\<lambda>i. if i \<in> set (last_two (user_positions ms)) then add_cache_control (ms ! i) else ms ! i)
         [0..<length ms]"

subsection \<open>The request\<close>

definition convert_tools :: "tool_def list \<Rightarrow> openai_tool list" where
  "convert_tools ts =
     map (\<lambda>t. \<lparr>fn_name = tool_name t,
                fn_description = (case tool_description t of None \<Rightarrow> [] | Some d \<Rightarrow> d),
                fn_parameters = input_schema t\<rparr>)
         (filter (\<lambda>t. tool_name t \<noteq> [] \<and> strip (tool_name t) \<noteq> []) ts)"

definition convert_tool_choice :: "(string \<times> json) list \<Rightarrow> openai_tool_choice" where
  "convert_tool_choice tc =
     (if map_of tc ''type'' = Some (JStr ''auto'') then ChoiceAuto
      else if map_of tc ''type'' = Some (JStr ''any'') then ChoiceAuto
      else if map_of tc ''type'' = Some (JStr ''tool'') \<and> map_of tc ''name'' \<noteq> None
        then ChoiceFunction (the (map_of tc ''name''))
      else ChoiceAuto)"

text \<open>
  \<open>convert_claude_to_openai\<close>: the messages, the system message, the cache flag read at
  line 140, then the request.
\<close>

definition convert_claude_to_openai ::
  "py_lib \<Rightarrow> config \<Rightarrow> (string \<Rightarrow> string) \<Rightarrow> claude_request \<Rightarrow> py_error + openai_request" where
  "convert_claude_to_openai lib cfg map_claude_model_to_openai claude_request =
     and_then (convert_messages lib (req_messages claude_request)) (\<lambda>ms.
     and_then (add_system cfg (req_system claude_request) ms) (\<lambda>with_system.
     and_then (read_cache_flag cfg) (\<lambda>flag.
       (let openai_messages = (if flag then cache_last_two_users with_system else with_system)
        in Inr \<lparr>model = map_claude_model_to_openai (req_model claude_request),
                messages = openai_messages,
                max_tokens = min (max (req_max_tokens claude_request) (min_tokens_limit cfg))
                                 (max_tokens_limit cfg),
                temperature = req_temperature claude_request,
                stream = req_stream claude_request,
                stop = (case req_stop_sequences claude_request of
                          None \<Rightarrow> None
                        | Some ss \<Rightarrow> if ss \<noteq> [] then Some ss else None),
                top_p = req_top_p claude_request,
                tools = (case req_tools claude_request of
                           None \<Rightarrow> None
                         | Some ts \<Rightarrow> if convert_tools ts \<noteq> [] then Some (convert_tools ts) else None),
                tool_choice = (case req_tool_choice claude_request of
                                 None \<Rightarrow> None
                               | Some tc \<Rightarrow> if tc \<noteq> [] then Some (convert_tool_choice tc) else None)\<rparr>))))"

section \<open>Predicates on converted messages\<close>

text \<open>
  A part carries a cache marker when it has a \<open>cache_control\<close> entry; a message has a
  marker when one of the parts of its content list carries one.
\<close>

fun part_marked :: "openai_part \<Rightarrow> bool" where
  "part_marked (TextPart t c) = (c \<noteq> None)"
| "part_marked (ImageUrlPart u) = False"

definition has_marker :: "openai_message \<Rightarrow> bool" where
  "has_marker m = (case content m of OParts ps \<Rightarrow> list_ex part_marked ps | _ \<Rightarrow> False)"

text \<open>
  The marker sits on the last text part of a content list, with the value
  \<open>{"type": "ephemeral"}\<close>, and on no other part.
\<close>

fun only_last_text_marked :: "openai_part list \<Rightarrow> bool" where
  "only_last_text_marked [] = False"
| "only_last_text_marked (TextPart t c # ps) =
     (if list_ex is_text_part ps then c = None \<and> only_last_text_marked ps
      else c = Some ''ephemeral'' \<and> \<not> list_ex part_marked ps)"
| "only_last_text_marked (ImageUrlPart u # ps) = only_last_text_marked ps"

definition marked_on_last_text :: "openai_message \<Rightarrow> bool" where
  "marked_on_last_text m = (case content m of OParts ps \<Rightarrow> only_last_text_marked ps | _ \<Rightarrow> False)"

definition is_user :: "openai_message \<Rightarrow> bool" where
  "is_user m = (role m = ROLE_USER)"

text \<open>
  What the converter builds before the cache stage: no message has a marker, and the
  content of a user message is a string or a list of parts.
\<close>

definition user_good :: "openai_message \<Rightarrow> bool" where
  "user_good m = (case content m of OStr s \<Rightarrow> True | OParts ps \<Rightarrow> \<not> list_ex part_marked ps | _ \<Rightarrow> False)"

definition msg_ok :: "openai_message \<Rightarrow> bool" where
  "msg_ok m = (\<not> has_marker m \<and> (role m = ROLE_USER \<longrightarrow> user_good m))"

text \<open>
  The marking of one selected message in the words of the spec, to be compared with
  \<open>add_cache_control\<close>: ``if its content is a bare string, convert to a one-element
  text-block array first; then locate the last text-typed element (synthesizing one with
  placeholder text "..." if none exists) and attach \<open>cache_control:{type:"ephemeral"}\<close> to
  it''. The elements up to and including the last text element, and those after it, are
  read off the reversed list.
\<close>

fun attach_cache_control :: "openai_part \<Rightarrow> openai_part" where
  "attach_cache_control (TextPart t c) = TextPart t (Some ''ephemeral'')"
| "attach_cache_control (ImageUrlPart u) = ImageUrlPart u"

definition spec_mark_elements :: "openai_part list \<Rightarrow> openai_part list" where
  "spec_mark_elements elements =
     (let upto_last_text = rev (dropWhile (\<lambda>p. \<not> is_text_part p) (rev elements));
          after_last_text = rev (takeWhile (\<lambda>p. \<not> is_text_part p) (rev elements))
      in if upto_last_text = [] then elements @ [TextPart ''...'' (Some ''ephemeral'')]
         else butlast upto_last_text @ [attach_cache_control (last upto_last_text)]
              @ after_last_text)"

fun spec_mark_content :: "openai_content \<Rightarrow> openai_content" where
  "spec_mark_content (OStr s) = OParts (spec_mark_elements [TextPart s None])"
| "spec_mark_content (OParts ps) = OParts (spec_mark_elements ps)"
| "spec_mark_content c = c"

text \<open>
  The content of every tool result of a user message normalizes, that is
  \<open>parse_tool_result_content\<close> raises nothing on it.
\<close>

fun block_normalizes :: "py_lib \<Rightarrow> content_block \<Rightarrow> bool" where
  "block_normalizes lib (ToolResult i c) =
     (case parse_tool_result_content lib c of Inl e \<Rightarrow> False | Inr v \<Rightarrow> True)"
| "block_normalizes lib b = True"

definition message_normalizes :: "py_lib \<Rightarrow> claude_message \<Rightarrow> bool" where
  "message_normalizes lib m =
     (case msg_content m of
        Str s \<Rightarrow> True
      | Blocks parts \<Rightarrow> msg_role m \<noteq> ROLE_USER \<or> list_all (block_normalizes lib) parts)"

section \<open>Reading JSON values the way Python reads dicts\<close>

text \<open>
  \<open>d.get(k, default)\<close> on a dict, and the exception each operation raises on a value
  of another shape: \<open>x.get\<close> on a value that is no dict is an \<open>AttributeError\<close>.
\<close>

definition py_get :: "(string \<times> json) list \<Rightarrow> string \<Rightarrow> json \<Rightarrow> json" where
  "py_get d k dflt = (case map_of d k of None \<Rightarrow> dflt | Some v \<Rightarrow> v)"

fun as_dict :: "json \<Rightarrow> py_error + (string \<times> json) list" where
  "as_dict (JDict d) = Inr d"
| "as_dict v = Inl AttributeError"

text \<open>A value that has to be a string; \<open>e\<close> is what the operation raises otherwise.\<close>

fun as_str :: "py_error \<Rightarrow> json \<Rightarrow> py_error + string" where
  "as_str e (JStr s) = Inr s"
| "as_str e v = Inl e"

text \<open>
  \<open>x[0]\<close> on a truthy value: the first element of a list, the first character of a
  string; a dict that came from JSON has no key \<open>0\<close>; other values are not subscriptable.
\<close>

fun subscript0 :: "json \<Rightarrow> py_error + json" where
  "subscript0 (JList (x # xs)) = Inr x"
| "subscript0 (JList []) = Inl IndexError"
| "subscript0 (JStr (c # cs)) = Inr (JStr [c])"
| "subscript0 (JStr []) = Inl IndexError"
| "subscript0 (JDict d) = Inl KeyError"
| "subscript0 v = Inl TypeError"

text \<open>\<open>for x in v\<close>: the elements of a list, the characters of a string, the keys of a dict.\<close>

fun iterate :: "json \<Rightarrow> py_error + json list" where
  "iterate (JList xs) = Inr xs"
| "iterate (JStr s) = Inr (map (\<lambda>c. JStr [c]) s)"
| "iterate (JDict d) = Inr (map (\<lambda>kv. JStr (fst kv)) d)"
| "iterate v = Inl TypeError"

text \<open>\<open>v == 0\<close> and \<open>v > 0\<close>; a Boolean compares as 0 or 1, and an order comparison
  of an integer with a value that is no number raises \<open>TypeError\<close>.\<close>

fun eq_zero :: "json \<Rightarrow> bool" where
  "eq_zero (JInt n) = (n = 0)"
| "eq_zero (JBool b) = (\<not> b)"
| "eq_zero v = False"

fun gt_zero :: "json \<Rightarrow> py_error + bool" where
  "gt_zero (JInt n) = Inr (n > 0)"
| "gt_zero (JBool b) = Inr b"
| "gt_zero v = Inl TypeError"

text \<open>A loop that extends a list by what each element gives and stops at the first exception.\<close>

fun collect_concat :: "('a \<Rightarrow> py_error + 'b list) \<Rightarrow> 'a list \<Rightarrow> py_error + 'b list" where
  "collect_concat f [] = Inr []"
| "collect_concat f (x # xs) =
     (case f x of
        Inl e \<Rightarrow> Inl e
      | Inr ys \<Rightarrow> (case collect_concat f xs of Inl e \<Rightarrow> Inl e | Inr zs \<Rightarrow> Inr (ys @ zs)))"

section \<open>Response converter (src/conversion/response_converter.py)\<close>

subsection \<open>Usage\<close>

text \<open>
  Lines 102-125, and the same statements at lines 322-344 of the cancellable translator:
  the usage dict of the result, from the usage dict of the upstream reply.
\<close>

definition cache_usage_data ::
  "(string \<times> json) list \<Rightarrow> (string \<times> json) list \<Rightarrow> py_error + (string \<times> json) list" where
  "cache_usage_data usage usage_data =
     (let cache_creation_tokens = py_get usage ''cache_creation_input_tokens'' (JInt 0);
          cache_read_tokens = py_get usage ''cache_read_input_tokens'' (JInt 0)
      in and_then (if eq_zero cache_read_tokens then
                     and_then (as_dict (py_get usage ''input_tokens_details'' (JDict [])))
                       (\<lambda>input_tokens_details.
                          let cached_tokens = py_get input_tokens_details ''cached_tokens'' (JInt 0)
                          in and_then (gt_zero cached_tokens)
                               (\<lambda>b. Inr (if b then cached_tokens else cache_read_tokens)))
                   else Inr cache_read_tokens)
           (\<lambda>cache_read_tokens'.
              and_then (gt_zero cache_creation_tokens)
                (\<lambda>creation.
                   and_then (gt_zero cache_read_tokens')
                     (\<lambda>read.
                        Inr (usage_data
                             @ (if creation
                                then [(''cache_creation_input_tokens'', cache_creation_tokens)]
                                else [])
                             @ (if read
                                then [(''cache_read_input_tokens'', cache_read_tokens')]
                                else []))))))"

definition build_usage_data :: "config \<Rightarrow> (string \<times> json) list \<Rightarrow> py_error + (string \<times> json) list" where
  "build_usage_data cfg usage =
     (let usage_data =
            [(''input_tokens'', py_get usage ''input_tokens'' (py_get usage ''prompt_tokens'' (JInt 0))),
             (''output_tokens'', py_get usage ''output_tokens'' (py_get usage ''completion_tokens'' (JInt 0)))]
      in and_then (read_cache_flag cfg)
           (\<lambda>flag. if flag then cache_usage_data usage usage_data else Inr usage_data))"

subsection \<open>Stop reason\<close>

text \<open>
  Lines 93-99: the table from the finish reason. A list or a dict cannot be a key of the
  lookup (\<open>TypeError\<close>: unhashable).
\<close>

fun map_finish_reason :: "json \<Rightarrow> py_error + string" where
  "map_finish_reason (JStr s) =
     Inr (if s = ''stop'' then STOP_END_TURN
          else if s = ''length'' then STOP_MAX_TOKENS
          else if s = ''tool_calls'' then STOP_TOOL_USE
          else if s = ''function_call'' then STOP_TOOL_USE
          else STOP_END_TURN)"
| "map_finish_reason (JList xs) = Inl TypeError"
| "map_finish_reason (JDict d) = Inl TypeError"
| "map_finish_reason v = Inr STOP_END_TURN"

subsection \<open>Content blocks\<close>

definition text_block :: "json \<Rightarrow> json" where
  "text_block t = JDict [(''type'', JStr CONTENT_TEXT), (''text'', t)]"

definition startswith :: "string \<Rightarrow> string \<Rightarrow> bool" where
  "startswith s p = (take (length p) s = p)"

text \<open>
  Lines 43-61, for a URL that is a string. \<open>split(",", 1)\<close> gives one part when there
  is no comma, and the unpacking raises \<open>ValueError\<close>; \<open>split(":")[1]\<close> raises
  \<open>IndexError\<close> when there is no colon. Both are caught and give the placeholder.
\<close>

definition image_block :: "string \<Rightarrow> json" where
  "image_block image_url =
     (if startswith image_url ''data:'' then
        (if CHR '','' \<in> set image_url then
           (let header = takeWhile (\<lambda>c. c \<noteq> CHR '','') image_url;
                base64_data = tl (dropWhile (\<lambda>c. c \<noteq> CHR '','') image_url)
            in if CHR '':'' \<in> set header then
                 (let media_type = takeWhile (\<lambda>c. c \<noteq> CHR '';'')
                                     (takeWhile (\<lambda>c. c \<noteq> CHR '':'')
                                        (tl (dropWhile (\<lambda>c. c \<noteq> CHR '':'') header)))
                  in JDict [(''type'', JStr CONTENT_IMAGE),
                            (''source'', JDict [(''type'', JStr ''base64''),
                                                (''media_type'', JStr media_type),
                                                (''data'', JStr base64_data)])])
               else text_block (JStr ''[Image content]''))
         else text_block (JStr ''[Image content]''))
      else text_block (JStr (''[Image: '' @ image_url @ '']'')))"

text \<open>Lines 33-64: the blocks one element of a list-shaped content adds.\<close>

fun convert_content_item :: "py_lib \<Rightarrow> json \<Rightarrow> py_error + json list" where
  "convert_content_item lib (JDict content_item) =
     (if map_of content_item ''type'' = Some (JStr ''text'') then
        (let text = py_get content_item ''text'' (JStr [])
         in Inr (if truthy text then [text_block text] else []))
      else if map_of content_item ''type'' = Some (JStr ''image_url'') then
        and_then (as_dict (py_get content_item ''image_url'' (JDict [])))
          (\<lambda>iu. and_then (as_str AttributeError (py_get iu ''url'' (JStr [])))
                  (\<lambda>image_url. Inr [image_block image_url]))
      else Inr [text_block (JStr (str_of lib (JDict content_item)))])"
| "convert_content_item lib v = Inr []"

text \<open>
  Lines 71-86: the block of one tool call. \<open>json.loads\<close> of a value that is no string
  raises \<open>TypeError\<close>, which the handler for \<open>JSONDecodeError\<close> does not catch.
  \<open>fresh\<close> stands for the \<open>uuid4\<close> value.
\<close>

definition convert_tool_call :: "py_lib \<Rightarrow> string \<Rightarrow> json \<Rightarrow> py_error + json list" where
  "convert_tool_call lib fresh tool_call =
     and_then (as_dict tool_call)
       (\<lambda>tc. if map_of tc ''type'' = Some (JStr TOOL_FUNCTION) then
                and_then (as_dict (py_get tc TOOL_FUNCTION (JDict [])))
                  (\<lambda>function_data.
                     and_then (as_str TypeError (py_get function_data ''arguments'' (JStr ''{}'')))
                       (\<lambda>a. Inr [JDict [(''type'', JStr ''tool_use''),
                                         (''id'', py_get tc ''id'' (JStr (''tool_'' @ fresh))),
                                         (''name'', py_get function_data ''name'' (JStr [])),
                                         (''input'', (case loads lib a of
                                                        Some arguments \<Rightarrow> arguments
                                                      | None \<Rightarrow> JDict [(''raw_arguments'', JStr a)]))]]))
              else Inr [])"

text \<open>Lines 26-67: the blocks from \<open>message.get("content")\<close>.\<close>

fun content_blocks_of :: "py_lib \<Rightarrow> json \<Rightarrow> py_error + json list" where
  "content_blocks_of lib JNull = Inr []"
| "content_blocks_of lib (JStr s) = Inr [text_block (JStr s)]"
| "content_blocks_of lib (JList items) = collect_concat (convert_content_item lib) items"
| "content_blocks_of lib v = Inr [text_block (JStr (str_of lib v))]"

subsection \<open>convert_openai_to_claude_response\<close>

definition no_choices :: py_error where
  "no_choices = HTTPException 500 ''No choices in OpenAI response''"

definition convert_openai_to_claude_response ::
  "py_lib \<Rightarrow> config \<Rightarrow> string \<Rightarrow> (string \<times> json) list \<Rightarrow> string \<Rightarrow> py_error + (string \<times> json) list" where
  "convert_openai_to_claude_response lib cfg fresh openai_response original_model =
     (let choices = py_get openai_response ''choices'' (JList [])
      in if \<not> truthy choices then Inl no_choices
         else
           and_then (subscript0 choices) (\<lambda>choice0.
           and_then (as_dict choice0) (\<lambda>choice.
           and_then (as_dict (py_get choice ''message'' (JDict []))) (\<lambda>message.
           and_then (content_blocks_of lib (py_get message ''content'' JNull)) (\<lambda>from_content.
           and_then (let tool_calls = py_get message ''tool_calls'' (JList [])
                in if truthy tool_calls then iterate tool_calls else Inr []) (\<lambda>tool_calls.
           and_then (collect_concat (convert_tool_call lib fresh) tool_calls) (\<lambda>from_tools.
           let produced = from_content @ from_tools;
               content_blocks = (if produced = [] then [text_block (JStr [])] else produced)
           in
           and_then (map_finish_reason (py_get choice ''finish_reason'' (JStr ''stop''))) (\<lambda>stop_reason.
           and_then (as_dict (py_get openai_response ''usage'' (JDict []))) (\<lambda>usage.
           and_then (build_usage_data cfg usage) (\<lambda>usage_data.
             Inr [(''id'', py_get openai_response ''id'' (JStr (''msg_'' @ fresh))),
                  (''type'', JStr ''message''),
                  (''role'', JStr ROLE_ASSISTANT),
                  (''model'', JStr original_model),
                  (''content'', JList content_blocks),
                  (''stop_reason'', JStr stop_reason),
                  (''stop_sequence'', JNull),
                  (''usage'', JDict usage_data)]))))))))))"

section \<open>Classes of exceptions\<close>

text \<open>
  The exceptions Python itself raises on a value of the wrong shape, as opposed to the
  \<open>HTTPException\<close> the converter raises on purpose.
\<close>

definition builtin_error :: "py_error \<Rightarrow> bool" where
  "builtin_error e = (e = IndexError \<or> e = KeyError \<or> e = TypeError \<or> e = AttributeError)"

definition raises_builtin :: "py_error + 'a \<Rightarrow> bool" where
  "raises_builtin r = (case r of Inl e \<Rightarrow> builtin_error e | Inr v \<Rightarrow> True)"

section \<open>Streaming translator (src/conversion/response_converter.py)\<close>

subsection \<open>Events, upstream lines and the translator's state\<close>

text \<open>
  What the translator yields. Each event is the pair of lines \<open>event: ...\<close> and
  \<open>data: ...\<close> of the source with the fields that vary: the index of the block, the id
  and name of a tool block, the text or the partial JSON of a delta, the stop reason and
  the usage dict, the type and message of an error. The index of a JSON delta is the
  \<open>claude_index\<close> entry of the tool call, which is \<open>None\<close> before the block starts.
\<close>

datatype sse_event =
    MessageStart string string
  | ContentBlockStartText nat
  | ContentBlockStartTool nat json json
  | Ping
  | TextDelta nat json
  | InputJsonDelta "nat option" string
  | ContentBlockStop nat
  | MessageDelta string "(string \<times> json) list"
  | MessageStop
  | ErrorEvent string string

text \<open>
  What \<open>async for line in openai_stream\<close> gets at each turn: a line, or an exception
  the upstream iterator raises. The end of the list is the end of the iteration.
\<close>

datatype stream_item = Line string | Raise py_error

text \<open>One entry of \<open>current_tool_calls\<close> (lines 196-203).\<close>

record tool_call_state =
  tc_id :: json
  tc_name :: json
  args_buffer :: string
  json_sent :: bool
  claude_index :: "nat option"
  started :: bool

definition new_tool_call :: tool_call_state where
  "new_tool_call = \<lparr>tc_id = JNull, tc_name = JNull, args_buffer = [], json_sent = False,
                     claude_index = None, started = False\<rparr>"

text \<open>
  The local variables of the loop. \<open>current_tool_calls\<close> is a dict, which keeps the
  order in which its keys were first stored; \<open>usage_data\<close> is read by the cancellable
  translator only.
\<close>

record stream_state =
  tool_block_counter :: nat
  current_tool_calls :: "(json \<times> tool_call_state) list"
  final_stop_reason :: string
  usage_data :: "(string \<times> json) list"

definition text_block_index :: nat where
  "text_block_index = 0"

definition zero_usage :: "(string \<times> json) list" where
  "zero_usage = [(''input_tokens'', JInt 0), (''output_tokens'', JInt 0)]"

definition init_stream_state :: stream_state where
  "init_stream_state = \<lparr>tool_block_counter = 0, current_tool_calls = [],
                         final_stop_reason = STOP_END_TURN, usage_data = zero_usage\<rparr>"

text \<open>\<open>d[k] = v\<close> on a dict in insertion order: in place for a key it has, at the end otherwise.\<close>

fun dict_set :: "'k \<Rightarrow> 'v \<Rightarrow> ('k \<times> 'v) list \<Rightarrow> ('k \<times> 'v) list" where
  "dict_set k v [] = [(k, v)]"
| "dict_set k v (p # ps) = (if fst p = k then (k, v) # ps else p # dict_set k v ps)"

text \<open>
  A value used as a dict key: a list or a dict is unhashable (\<open>TypeError\<close>), and
  \<open>True\<close> and \<open>False\<close> are the keys \<open>1\<close> and \<open>0\<close>.
\<close>

fun dict_key :: "json \<Rightarrow> py_error + json" where
  "dict_key (JList xs) = Inl TypeError"
| "dict_key (JDict d) = Inl TypeError"
| "dict_key (JBool b) = Inr (JInt (if b then 1 else 0))"
| "dict_key v = Inr v"

text \<open>
  \<open>k in v\<close> and \<open>v[k]\<close> for a string \<open>k\<close>: key membership and lookup on a dict; on a
  list, membership of the string and no string index; on a string, the substring test
  and no string index; on other values \<open>TypeError\<close>.
\<close>

fun is_substring :: "string \<Rightarrow> string \<Rightarrow> bool" where
  "is_substring p [] = (p = [])"
| "is_substring p (c # cs) = (startswith (c # cs) p \<or> is_substring p cs)"

fun py_in :: "string \<Rightarrow> json \<Rightarrow> py_error + bool" where
  "py_in k (JDict d) = Inr (map_of d k \<noteq> None)"
| "py_in k (JList xs) = Inr (JStr k \<in> set xs)"
| "py_in k (JStr s) = Inr (is_substring k s)"
| "py_in k v = Inl TypeError"

fun py_subscript :: "json \<Rightarrow> string \<Rightarrow> py_error + json" where
  "py_subscript (JDict d) k = (case map_of d k of None \<Rightarrow> Inl KeyError | Some v \<Rightarrow> Inr v)"
| "py_subscript v k = Inl TypeError"

subsection \<open>One tool-call delta\<close>

text \<open>
  Lines 192-238, the same in both translators. The result is the events yielded and
  either the exception that ended the step or the state after it; the events yielded
  before an exception have been sent.
\<close>

definition process_tc_delta ::
  "py_lib \<Rightarrow> stream_state \<Rightarrow> json \<Rightarrow> sse_event list \<times> (py_error + stream_state)" where
  "process_tc_delta lib st tc_delta_json =
     (case as_dict tc_delta_json of
        Inl e \<Rightarrow> ([], Inl e)
      | Inr tc_delta \<Rightarrow>
     (case dict_key (py_get tc_delta ''index'' (JInt 0)) of
        Inl e \<Rightarrow> ([], Inl e)
      | Inr tc_index \<Rightarrow>
     (let calls0 = (if map_of (current_tool_calls st) tc_index = None
                    then dict_set tc_index new_tool_call (current_tool_calls st)
                    else current_tool_calls st);
          tool_call0 = (case map_of calls0 tc_index of None \<Rightarrow> new_tool_call | Some t \<Rightarrow> t);
          tool_call1 = (if truthy (py_get tc_delta ''id'' JNull)
                        then tool_call0\<lparr>tc_id := py_get tc_delta ''id'' JNull\<rparr>
                        else tool_call0)
      in
     (case as_dict (py_get tc_delta TOOL_FUNCTION (JDict [])) of
        Inl e \<Rightarrow> ([], Inl e)
      | Inr function_data \<Rightarrow>
     (let tool_call2 = (if truthy (py_get function_data ''name'' JNull)
                        then tool_call1\<lparr>tc_name := py_get function_data ''name'' JNull\<rparr>
                        else tool_call1);
          starting = (truthy (tc_id tool_call2) \<and> truthy (tc_name tool_call2)
                      \<and> \<not> started tool_call2);
          counter = (if starting then tool_block_counter st + 1 else tool_block_counter st);
          tool_call3 = (if starting
                        then tool_call2\<lparr>claude_index := Some (text_block_index + counter),
                                        started := True\<rparr>
                        else tool_call2);
          start_events = (if starting
                          then [ContentBlockStartTool (text_block_index + counter)
                                  (tc_id tool_call3) (tc_name tool_call3)]
                          else [])
      in
       if map_of function_data ''arguments'' \<noteq> None \<and> started tool_call3
          \<and> map_of function_data ''arguments'' \<noteq> Some JNull
       then
         (case as_str TypeError (py_get function_data ''arguments'' JNull) of
            Inl e \<Rightarrow> (start_events, Inl e)
          | Inr arguments \<Rightarrow>
              (let buffer = args_buffer tool_call3 @ arguments;
                   sending = (loads lib buffer \<noteq> None \<and> \<not> json_sent tool_call3);
                   tool_call4 = tool_call3\<lparr>args_buffer := buffer,
                                           json_sent := (json_sent tool_call3 \<or> sending)\<rparr>
               in (start_events
                     @ (if sending then [InputJsonDelta (claude_index tool_call3) buffer] else []),
                   Inr (st\<lparr>tool_block_counter := counter,
                           current_tool_calls := dict_set tc_index tool_call4 calls0\<rparr>))))
       else (start_events,
             Inr (st\<lparr>tool_block_counter := counter,
                     current_tool_calls := dict_set tc_index tool_call3 calls0\<rparr>)))))))"

text \<open>The \<open>for tc_delta in delta["tool_calls"]\<close> loop.\<close>

fun process_tc_deltas ::
  "py_lib \<Rightarrow> stream_state \<Rightarrow> json list \<Rightarrow> sse_event list \<times> (py_error + stream_state)" where
  "process_tc_deltas lib st [] = ([], Inr st)"
| "process_tc_deltas lib st (d # ds) =
     (case process_tc_delta lib st d of
        (evs, Inl e) \<Rightarrow> (evs, Inl e)
      | (evs, Inr st') \<Rightarrow>
          (case process_tc_deltas lib st' ds of (evs2, r) \<Rightarrow> (evs @ evs2, r)))"

subsection \<open>One chunk\<close>

text \<open>Lines 186-187: the text delta.\<close>

definition text_delta_events :: "json \<Rightarrow> py_error + sse_event list" where
  "text_delta_events delta =
     (if truthy delta then
        and_then (py_in ''content'' delta)
          (\<lambda>present. if present then
                        and_then (py_subscript delta ''content'')
                          (\<lambda>c. Inr (if c \<noteq> JNull then [TextDelta text_block_index c] else []))
                      else Inr [])
      else Inr [])"

text \<open>
  The tool-call deltas a chunk's delta holds. Line 190 of the plain translator tests
  only that the key is there; line 363 of the cancellable one also that the value is
  truthy.
\<close>

definition tool_call_deltas_plain :: "json \<Rightarrow> py_error + json list" where
  "tool_call_deltas_plain delta =
     and_then (py_in ''tool_calls'' delta)
       (\<lambda>present. if present then and_then (py_subscript delta ''tool_calls'') iterate
                   else Inr [])"

definition tool_call_deltas_cancellable :: "json \<Rightarrow> py_error + json list" where
  "tool_call_deltas_cancellable delta =
     and_then (py_in ''tool_calls'' delta)
       (\<lambda>present. if present then
                     and_then (py_subscript delta ''tool_calls'')
                       (\<lambda>tcs. if truthy tcs then iterate tcs else Inr [])
                   else Inr [])"

text \<open>Lines 242-249: the stop reason of a finish reason.\<close>

definition stop_reason_of :: "json \<Rightarrow> string" where
  "stop_reason_of finish_reason =
     (if finish_reason = JStr ''length'' then STOP_MAX_TOKENS
      else if finish_reason = JStr ''tool_calls'' \<or> finish_reason = JStr ''function_call''
        then STOP_TOOL_USE
      else if finish_reason = JStr ''stop'' then STOP_END_TURN
      else STOP_END_TURN)"

datatype flow = Continue | Break

text \<open>
  Lines 181-250 of the plain translator, for a chunk with a truthy \<open>choices\<close>:
  the text delta, the tool-call deltas, and the finish reason, which ends the loop.
\<close>

definition process_choice_plain ::
  "py_lib \<Rightarrow> stream_state \<Rightarrow> json \<Rightarrow> sse_event list \<times> (py_error + stream_state \<times> flow)" where
  "process_choice_plain lib st choices =
     (case and_then (subscript0 choices) as_dict of
        Inl e \<Rightarrow> ([], Inl e)
      | Inr choice \<Rightarrow>
     (let delta = py_get choice ''delta'' (JDict []);
          finish_reason = py_get choice ''finish_reason'' JNull
      in
     (case text_delta_events delta of
        Inl e \<Rightarrow> ([], Inl e)
      | Inr evs1 \<Rightarrow>
     (case tool_call_deltas_plain delta of
        Inl e \<Rightarrow> (evs1, Inl e)
      | Inr tcs \<Rightarrow>
     (case process_tc_deltas lib st tcs of
        (evs2, Inl e) \<Rightarrow> (evs1 @ evs2, Inl e)
      | (evs2, Inr st') \<Rightarrow>
          if truthy finish_reason
          then (evs1 @ evs2,
                Inr (st'\<lparr>final_stop_reason := stop_reason_of finish_reason\<rparr>, Break))
          else (evs1 @ evs2, Inr (st', Continue)))))))"

text \<open>
  Lines 354-422 of the cancellable translator: the same, with the guarded tool-call
  test and without the \<open>break\<close> after a finish reason.
\<close>

definition process_choice_cancellable ::
  "py_lib \<Rightarrow> stream_state \<Rightarrow> json \<Rightarrow> sse_event list \<times> (py_error + stream_state \<times> flow)" where
  "process_choice_cancellable lib st choices =
     (case and_then (subscript0 choices) as_dict of
        Inl e \<Rightarrow> ([], Inl e)
      | Inr choice \<Rightarrow>
     (let delta = py_get choice ''delta'' (JDict []);
          finish_reason = py_get choice ''finish_reason'' JNull
      in
     (case text_delta_events delta of
        Inl e \<Rightarrow> ([], Inl e)
      | Inr evs1 \<Rightarrow>
     (case tool_call_deltas_cancellable delta of
        Inl e \<Rightarrow> (evs1, Inl e)
      | Inr tcs \<Rightarrow>
     (case process_tc_deltas lib st tcs of
        (evs2, Inl e) \<Rightarrow> (evs1 @ evs2, Inl e)
      | (evs2, Inr st') \<Rightarrow>
          if truthy finish_reason
          then (evs1 @ evs2,
                Inr (st'\<lparr>final_stop_reason := stop_reason_of finish_reason\<rparr>, Continue))
          else (evs1 @ evs2, Inr (st', Continue)))))))"

subsection \<open>One line\<close>

text \<open>
  Lines 164-179 of the plain translator. A line that is blank, that does not start with
  \<open>data: \<close>, or whose payload is no JSON is skipped; \<open>[DONE]\<close> ends the loop; a chunk
  that is no dict raises at \<open>chunk.get\<close>; a chunk without choices is skipped.
\<close>

definition process_line_plain ::
  "py_lib \<Rightarrow> stream_state \<Rightarrow> string \<Rightarrow> sse_event list \<times> (py_error + stream_state \<times> flow)" where
  "process_line_plain lib st line =
     (if strip line \<noteq> [] then
        (if startswith line ''data: '' then
           (let chunk_data = drop 6 line
            in if strip chunk_data = ''[DONE]'' then ([], Inr (st, Break))
               else
                 (case loads lib chunk_data of
                    None \<Rightarrow> ([], Inr (st, Continue))
                  | Some chunk_json \<Rightarrow>
                      (case as_dict chunk_json of
                         Inl e \<Rightarrow> ([], Inl e)
                       | Inr chunk \<Rightarrow>
                           (let choices = py_get chunk ''choices'' (JList [])
                            in if \<not> truthy choices then ([], Inr (st, Continue))
                               else process_choice_plain lib st choices))))
         else ([], Inr (st, Continue)))
      else ([], Inr (st, Continue)))"

text \<open>
  Lines 311-352 of the cancellable translator: as above, and a truthy \<open>usage\<close> of the
  chunk replaces \<open>usage_data\<close> before the choices are looked at.
\<close>

definition process_line_cancellable ::
  "py_lib \<Rightarrow> config \<Rightarrow> stream_state \<Rightarrow> string
     \<Rightarrow> sse_event list \<times> (py_error + stream_state \<times> flow)" where
  "process_line_cancellable lib cfg st line =
     (if strip line \<noteq> [] then
        (if startswith line ''data: '' then
           (let chunk_data = drop 6 line
            in if strip chunk_data = ''[DONE]'' then ([], Inr (st, Break))
               else
                 (case loads lib chunk_data of
                    None \<Rightarrow> ([], Inr (st, Continue))
                  | Some chunk_json \<Rightarrow>
                      (case as_dict chunk_json of
                         Inl e \<Rightarrow> ([], Inl e)
                       | Inr chunk \<Rightarrow>
                           (let usage = py_get chunk ''usage'' JNull
                            in case (if truthy usage
                                     then and_then (as_dict usage) (build_usage_data cfg)
                                     else Inr (usage_data st)) of
                                 Inl e \<Rightarrow> ([], Inl e)
                               | Inr u \<Rightarrow>
                                   (let st1 = st\<lparr>usage_data := u\<rparr>;
                                        choices = py_get chunk ''choices'' (JList [])
                                    in if \<not> truthy choices then ([], Inr (st1, Continue))
                                       else process_choice_cancellable lib st1 choices)))))
         else ([], Inr (st, Continue)))
      else ([], Inr (st, Continue)))"

subsection \<open>The two translators\<close>

text \<open>Lines 266-274: the final events, with the usage the translator reports.\<close>

fun stop_events :: "tool_call_state list \<Rightarrow> sse_event list" where
  "stop_events [] = []"
| "stop_events (tool_data # rest) =
     (if started tool_data then
        (case claude_index tool_data of
           Some i \<Rightarrow> ContentBlockStop i # stop_events rest
         | None \<Rightarrow> stop_events rest)
      else stop_events rest)"

definition teardown :: "stream_state \<Rightarrow> (string \<times> json) list \<Rightarrow> sse_event list" where
  "teardown st usage =
     [ContentBlockStop text_block_index]
     @ stop_events (map snd (current_tool_calls st))
     @ [MessageDelta (final_stop_reason st) usage, MessageStop]"

definition initial_events :: "string \<Rightarrow> string \<Rightarrow> sse_event list" where
  "initial_events message_id mdl = [MessageStart message_id mdl, ContentBlockStartText 0, Ping]"

definition api_error_event :: "py_lib \<Rightarrow> py_error \<Rightarrow> sse_event" where
  "api_error_event lib e = ErrorEvent ''api_error'' (''Streaming error: '' @ str_exc lib e)"

text \<open>The loop of the plain translator (lines 163-250).\<close>

fun loop_plain ::
  "py_lib \<Rightarrow> stream_state \<Rightarrow> stream_item list \<Rightarrow> sse_event list \<times> (py_error + stream_state)" where
  "loop_plain lib st [] = ([], Inr st)"
| "loop_plain lib st (Raise e # rest) = ([], Inl e)"
| "loop_plain lib st (Line line # rest) =
     (case process_line_plain lib st line of
        (evs, Inl e) \<Rightarrow> (evs, Inl e)
      | (evs, Inr (st', Break)) \<Rightarrow> (evs, Inr st')
      | (evs, Inr (st', Continue)) \<Rightarrow>
          (case loop_plain lib st' rest of (evs2, r) \<Rightarrow> (evs @ evs2, r)))"

text \<open>
  \<open>convert_openai_streaming_to_claude\<close>: the three initial events, the loop, then either
  the error event or the final events, whose usage is the constant of line 272.
\<close>

definition convert_openai_streaming_to_claude ::
  "py_lib \<Rightarrow> string \<Rightarrow> string \<Rightarrow> stream_item list \<Rightarrow> sse_event list" where
  "convert_openai_streaming_to_claude lib message_id original_model openai_stream =
     initial_events message_id original_model
     @ (case loop_plain lib init_stream_state openai_stream of
          (evs, Inl e) \<Rightarrow> evs @ [api_error_event lib e]
        | (evs, Inr st) \<Rightarrow> evs @ teardown st zero_usage)"

text \<open>
  The cancellation registry of the dispatch client (\<open>active_requests\<close>): for each
  registered request id, whether its event is set.
\<close>

definition cancel_request :: "string \<Rightarrow> (string \<rightharpoonup> bool) \<Rightarrow> (string \<rightharpoonup> bool)" where
  "cancel_request request_id active_requests =
     (if active_requests request_id \<noteq> None then active_requests(request_id \<mapsto> True)
      else active_requests)"

text \<open>
  How the loop of the cancellable translator was left: the stream ran out, the
  \<open>[DONE]\<close> line was read, the client was seen disconnected, or an exception. The source
  does not record which; the model does, so that statements can name the case.
\<close>

datatype loop_end = Exhausted | Done | Disconnected | Failed py_error

text \<open>
  The loop of the cancellable translator (lines 304-422). Each line comes with the answer
  \<open>http_request.is_disconnected()\<close> gives when the loop has just received it.
\<close>

fun loop_cancellable ::
  "py_lib \<Rightarrow> config \<Rightarrow> string \<Rightarrow> stream_state \<Rightarrow> (string \<rightharpoonup> bool)
     \<Rightarrow> (stream_item \<times> bool) list
     \<Rightarrow> sse_event list \<times> (string \<rightharpoonup> bool) \<times> loop_end \<times> stream_state" where
  "loop_cancellable lib cfg request_id st reg [] = ([], reg, Exhausted, st)"
| "loop_cancellable lib cfg request_id st reg ((Raise e, disconnected) # rest) =
     ([], reg, Failed e, st)"
| "loop_cancellable lib cfg request_id st reg ((Line line, disconnected) # rest) =
     (if disconnected then ([], cancel_request request_id reg, Disconnected, st)
      else
        (case process_line_cancellable lib cfg st line of
           (evs, Inl e) \<Rightarrow> (evs, reg, Failed e, st)
         | (evs, Inr (st', Break)) \<Rightarrow> (evs, reg, Done, st')
         | (evs, Inr (st', Continue)) \<Rightarrow>
             (case loop_cancellable lib cfg request_id st' reg rest of
                (evs2, r) \<Rightarrow> (evs @ evs2, r))))"

definition cancelled_event :: sse_event where
  "cancelled_event = ErrorEvent ''cancelled'' ''Request was cancelled by client''"

text \<open>
  \<open>convert_openai_streaming_to_claude_with_cancellation\<close>. The result is the events
  yielded, the registry of the client, and the exception the generator itself raises
  (an \<open>HTTPException\<close> whose status is not 499 is raised again at line 438).
\<close>

definition convert_openai_streaming_to_claude_with_cancellation ::
  "py_lib \<Rightarrow> config \<Rightarrow> string \<Rightarrow> string \<Rightarrow> string \<Rightarrow> (string \<rightharpoonup> bool)
     \<Rightarrow> (stream_item \<times> bool) list
     \<Rightarrow> sse_event list \<times> (string \<rightharpoonup> bool) \<times> py_error option" where
  "convert_openai_streaming_to_claude_with_cancellation lib cfg message_id original_model
       request_id reg openai_stream =
     (case loop_cancellable lib cfg request_id init_stream_state reg openai_stream of
        (evs, reg', Failed (HTTPException status detail), st) \<Rightarrow>
          if status = 499
          then (initial_events message_id original_model @ evs @ [cancelled_event], reg', None)
          else (initial_events message_id original_model @ evs, reg',
                Some (HTTPException status detail))
      | (evs, reg', Failed e, st) \<Rightarrow>
          (initial_events message_id original_model @ evs @ [api_error_event lib e], reg', None)
      | (evs, reg', ending, st) \<Rightarrow>
          (initial_events message_id original_model @ evs @ teardown st (usage_data st),
           reg', None))"

section \<open>Example inputs\<close>

text \<open>
  A manager of three credentials whose first one failed at time 900, with the
  default cooldown of 300 seconds.
\<close>

definition km_example :: key_manager where
  "km_example = mark_key_failed 900 ''k1'' (init_key_manager [''k1'', ''k2'', ''k3''] 300)"

text \<open>Stand-ins for the library functions, for evaluating the model on examples.\<close>

definition lib_example :: py_lib where
  "lib_example = \<lparr>dumps = (\<lambda>v. ''{}''), str_of = (\<lambda>v. ''?''), loads = (\<lambda>s. None),
                    str_exc = (\<lambda>e. ''error'')\<rparr>"

text \<open>
  Configurations: the object \<open>config.py\<close> builds from an empty environment, with the cache
  attribute set to \<open>False\<close> and to \<open>True\<close> on it, as the tests set it.
\<close>

definition cfg_cache_off :: config where
  "cfg_cache_off = (config_from_env None None)\<lparr>supports_prompt_cache := Some False\<rparr>"

definition cfg_cache_on :: config where
  "cfg_cache_on = (config_from_env None None)\<lparr>supports_prompt_cache := Some True\<rparr>"

definition request_hello :: claude_request where
  "request_hello = \<lparr>req_model = ''claude-3-5-sonnet-20241022'',
      req_messages = [\<lparr>msg_role = ''user'', msg_content = Str ''Hello''\<rparr>],
      req_system = NoSystem, req_max_tokens = 10, req_temperature = 1,
      req_top_p = None, req_stop_sequences = None, req_tools = None,
      req_tool_choice = None, req_stream = False\<rparr>"

definition parts_example :: "content_block list" where
  "parts_example = [Text ''Here is the context after tool execution:'',
                    ToolResult ''tool-456'' (JStr ''Tool execution completed successfully'')]"

definition request_three_users :: claude_request where
  "request_three_users = \<lparr>req_model = ''claude-3-5-sonnet-20241022'',
      req_messages = [\<lparr>msg_role = ''user'', msg_content = Str ''First''\<rparr>,
                      \<lparr>msg_role = ''assistant'', msg_content = Str ''Reply''\<rparr>,
                      \<lparr>msg_role = ''user'', msg_content = Str ''Second''\<rparr>,
                      \<lparr>msg_role = ''user'', msg_content = Blocks
                         [Text ''Look at this image:'',
                          Image (JDict [(''type'', JStr ''base64''), (''media_type'', JStr ''image/jpeg''),
                                        (''data'', JStr ''base64data'')]),
                          Text ''What do you see?'']\<rparr>],
      req_system = SysStr ''Be brief'', req_max_tokens = 100, req_temperature = 1,
      req_top_p = None, req_stop_sequences = None, req_tools = None,
      req_tool_choice = None, req_stream = False\<rparr>"

text \<open>
  Two upstream replies with one choice: one whose \<open>usage\<close> is \<open>null\<close>, as the dump of a
  reply without usage figures has it, and one with usage figures and no content.
\<close>

definition response_null_usage :: "(string \<times> json) list" where
  "response_null_usage =
     [(''id'', JStr ''chatcmpl-1''),
      (''choices'', JList [JDict [(''index'', JInt 0),
                                  (''message'', JDict [(''role'', JStr ''assistant''),
                                                       (''content'', JStr ''Hello'')]),
                                  (''finish_reason'', JStr ''stop'')]]),
      (''usage'', JNull)]"

definition response_hello :: "(string \<times> json) list" where
  "response_hello =
     [(''id'', JStr ''chatcmpl-1''),
      (''choices'', JList [JDict [(''index'', JInt 0),
                                  (''message'', JDict [(''role'', JStr ''assistant''),
                                                       (''content'', JNull)]),
                                  (''finish_reason'', JStr ''stop'')]]),
      (''usage'', JDict [(''prompt_tokens'', JInt 5), (''completion_tokens'', JInt 2)])]"

text \<open>
  A conversation with a system prompt in which the last user turn answers a tool call:
  its blocks are a text block followed by the tool result.
\<close>

definition request_mixed :: claude_request where
  "request_mixed = \<lparr>req_model = ''claude-3-5-sonnet-20241022'',
      req_messages = [\<lparr>msg_role = ''user'', msg_content = Str ''Run the tool''\<rparr>,
                      \<lparr>msg_role = ''assistant'', msg_content = Blocks
                         [ToolUse ''tool-456'' ''run'' (JDict [])]\<rparr>,
                      \<lparr>msg_role = ''user'', msg_content = Blocks parts_example\<rparr>],
      req_system = SysStr ''Be brief'', req_max_tokens = 100, req_temperature = 1,
      req_top_p = None, req_stop_sequences = None, req_tools = None,
      req_tool_choice = None, req_stream = False\<rparr>"


section \<open>Properties of the key manager\<close>

lemma advance_fields [simp]:
  "api_keys (advance m j) = api_keys m"
  "failed_keys (advance m j) = failed_keys m"
  "cooldown_period (advance m j) = cooldown_period m"
  "current_index (advance m j) = (current_index m + j) mod length (api_keys m)"
  by (simp_all add: advance_def)

lemma slot_advance: "slot (advance m 1) j = slot m (Suc j)"
  by (simp add: slot_def mod_add_left_eq)

lemma advance_advance: "advance (advance m 1) j = advance m (Suc j)"
  by (simp add: advance_def mod_add_left_eq)

lemma advance_0: "current_index m < length (api_keys m) \<Longrightarrow> advance m 0 = m"
  by (simp add: advance_def)

lemma slot_in_set: "0 < length (api_keys m) \<Longrightarrow> slot m j \<in> set (api_keys m)"
  by (simp add: slot_def)

lemma expire_fields [simp]:
  "api_keys (expire_cooldowns now m) = api_keys m"
  "current_index (expire_cooldowns now m) = current_index m"
  "cooldown_period (expire_cooldowns now m) = cooldown_period m"
  by (simp_all add: expire_cooldowns_def)

lemma expire_failed_None:
  "failed_keys (expire_cooldowns now m) key = None \<longleftrightarrow> \<not> in_cooldown now m key"
  by (simp add: expire_cooldowns_def in_cooldown_def key_available_def split: option.splits)

lemma slot_expire [simp]: "slot (expire_cooldowns now m) j = slot m j"
  by (simp add: slot_def)

lemma filter_all_length: "length (filter P xs) < length xs \<Longrightarrow> \<exists>x\<in>set xs. \<not> P x"
  by (induction xs) (auto split: if_splits)

text \<open>One turn of the loop body, for a cursor inside the list.\<close>

lemma scan_keys_step:
  assumes "a < length (api_keys m)" "current_index m < length (api_keys m)"
  shows "scan_keys a m =
     (if failed_keys m (slot m 0) = None then Inr (Some (slot m 0), advance m 1)
      else scan_keys (Suc a) (advance m 1))"
proof -
  from assms have "length (api_keys m) \<noteq> 0" by linarith
  with assms show ?thesis
    by (subst scan_keys.simps) (simp add: Let_def slot_def advance_def)
qed

text \<open>
  The loop with \<open>n\<close> turns left: it stops at the first candidate without a failure
  entry, or finds none among the \<open>n\<close> candidates.
\<close>

lemma scan_keys_spec:
  "current_index m < length (api_keys m) \<Longrightarrow> a + n = length (api_keys m) \<Longrightarrow>
   (\<exists>j<n. failed_keys m (slot m j) = None
          \<and> (\<forall>i<j. failed_keys m (slot m i) \<noteq> None)
          \<and> scan_keys a m = Inr (Some (slot m j), advance m (Suc j)))
   \<or> ((\<forall>i<n. failed_keys m (slot m i) \<noteq> None)
          \<and> scan_keys a m = Inr (None, advance m n))"
proof (induction n arbitrary: a m)
  case 0
  then show ?case by (simp add: scan_keys.simps advance_0)
next
  case (Suc n)
  let ?m' = "advance m 1"
  from Suc.prems have a: "a < length (api_keys m)" by linarith
  then have kpos: "0 < length (api_keys m)" by linarith
  note step = scan_keys_step[OF a Suc.prems(1)]
  show ?case
  proof (cases "failed_keys m (slot m 0) = None")
    case True
    then have "failed_keys m (slot m 0) = None \<and> (\<forall>i<0. failed_keys m (slot m i) \<noteq> None)
        \<and> scan_keys a m = Inr (Some (slot m 0), advance m (Suc 0))"
      using step by simp
    then show ?thesis by blast
  next
    case False
    have c': "current_index ?m' < length (api_keys ?m')" using kpos by simp
    have n': "Suc a + n = length (api_keys ?m')" using Suc.prems by simp
    from Suc.IH[OF c' n']
    have IH: "(\<exists>j<n. failed_keys m (slot m (Suc j)) = None
          \<and> (\<forall>i<j. failed_keys m (slot m (Suc i)) \<noteq> None)
          \<and> scan_keys (Suc a) ?m' = Inr (Some (slot m (Suc j)), advance m (Suc (Suc j))))
       \<or> ((\<forall>i<n. failed_keys m (slot m (Suc i)) \<noteq> None)
          \<and> scan_keys (Suc a) ?m' = Inr (None, advance m (Suc n)))"
      by (simp only: slot_advance advance_advance advance_fields)
    have all_Suc: "\<And>j. (\<forall>i<j. failed_keys m (slot m (Suc i)) \<noteq> None)
                    \<Longrightarrow> (\<forall>i<Suc j. failed_keys m (slot m i) \<noteq> None)"
    proof (intro allI impI)
      fix j i assume h: "\<forall>i<j. failed_keys m (slot m (Suc i)) \<noteq> None" "i < Suc j"
      show "failed_keys m (slot m i) \<noteq> None"
        using h False by (cases i) auto
    qed
    from IH show ?thesis
    proof
      assume "\<exists>j<n. failed_keys m (slot m (Suc j)) = None
          \<and> (\<forall>i<j. failed_keys m (slot m (Suc i)) \<noteq> None)
          \<and> scan_keys (Suc a) ?m' = Inr (Some (slot m (Suc j)), advance m (Suc (Suc j)))"
      then obtain j where j: "j < n" "failed_keys m (slot m (Suc j)) = None"
          "\<forall>i<j. failed_keys m (slot m (Suc i)) \<noteq> None"
          "scan_keys (Suc a) ?m' = Inr (Some (slot m (Suc j)), advance m (Suc (Suc j)))"
        by blast
      have "Suc j < Suc n \<and> failed_keys m (slot m (Suc j)) = None
          \<and> (\<forall>i<Suc j. failed_keys m (slot m i) \<noteq> None)
          \<and> scan_keys a m = Inr (Some (slot m (Suc j)), advance m (Suc (Suc j)))"
        using j all_Suc[OF j(3)] step False by simp
      then show ?thesis by blast
    next
      assume A: "(\<forall>i<n. failed_keys m (slot m (Suc i)) \<noteq> None)
          \<and> scan_keys (Suc a) ?m' = Inr (None, advance m (Suc n))"
      then have "(\<forall>i<Suc n. failed_keys m (slot m i) \<noteq> None)
          \<and> scan_keys a m = Inr (None, advance m (Suc n))"
        using all_Suc[of n] step False by simp
      then show ?thesis by blast
    qed
  qed
qed

text \<open>A full round from a cursor inside the list meets every position of the list.\<close>

lemma slot_cover:
  assumes "current_index m < length (api_keys m)" "key \<in> set (api_keys m)"
  shows "\<exists>i<length (api_keys m). slot m i = key"
proof -
  let ?k = "length (api_keys m)" and ?c = "current_index m"
  from assms(2) obtain n where n: "n < ?k" "api_keys m ! n = key"
    by (auto simp: in_set_conv_nth)
  have "(?c + (n + ?k - ?c) mod ?k) mod ?k = (?c + (n + ?k - ?c)) mod ?k"
    by (simp add: mod_add_right_eq)
  also have "\<dots> = (n + ?k) mod ?k" using assms(1) by simp
  also have "\<dots> = n" using n by simp
  finally have "slot m ((n + ?k - ?c) mod ?k) = key" using n by (simp add: slot_def)
  moreover have "0 < ?k" using n by linarith
  then have "(n + ?k - ?c) mod ?k < ?k" by (rule mod_less_divisor)
  ultimately show ?thesis by blast
qed

lemma km_example_fields:
  "api_keys km_example = [''k1'', ''k2'', ''k3'']"
  "current_index km_example = 0"
  "cooldown_period km_example = 300"
  "failed_keys km_example = [''k1'' \<mapsto> 900]"
  by (simp_all add: km_example_def mark_key_failed_def init_key_manager_def)

lemma km_example_cooldown:
  "in_cooldown 1000 km_example ''k1''" "\<not> in_cooldown 1000 km_example ''k2''"
  "\<not> in_cooldown 1000 km_example ''k3''"
  by (simp_all add: in_cooldown_def key_available_def km_example_fields)

text \<open>
  Claim C4. For a key manager whose cursor lies inside its list of \<open>k\<close> credentials,
  \<open>get_next_key\<close> raises nothing; a credential it returns is one of the list that is not
  in cooldown, namely the first such candidate of a circular scan of at most \<open>k\<close>
  candidates from the cursor, and the cursor is left just past it; it returns \<open>None\<close>
  exactly when every credential is in cooldown; and it returns a credential whenever
  fewer than \<open>k\<close> of them are in cooldown.
\<close>

theorem get_next_key_ok:
  assumes inv: "current_index m < length (api_keys m)"
  shows "\<exists>r m'. get_next_key now m = Inr (r, m')
      \<and> (\<forall>key. r = Some key \<longrightarrow>
             key \<in> set (api_keys m) \<and> \<not> in_cooldown now m key
           \<and> (\<exists>j<length (api_keys m). key = slot m j
                  \<and> (\<forall>i<j. in_cooldown now m (slot m i))
                  \<and> m' = advance (expire_cooldowns now m) (Suc j)))
      \<and> (r = None \<longleftrightarrow> (\<forall>key\<in>set (api_keys m). in_cooldown now m key))
      \<and> (length (filter (in_cooldown now m) (api_keys m)) < length (api_keys m) \<longrightarrow> r \<noteq> None)"
proof -
  let ?e = "expire_cooldowns now m" and ?k = "length (api_keys m)"
  have inv': "current_index ?e < length (api_keys ?e)" using inv by simp
  have kpos: "0 < ?k" using inv by linarith
  have "0 + ?k = length (api_keys ?e)" by simp
  from scan_keys_spec[OF inv' this]
  have spec: "(\<exists>j<?k. \<not> in_cooldown now m (slot m j)
          \<and> (\<forall>i<j. in_cooldown now m (slot m i))
          \<and> get_next_key now m = Inr (Some (slot m j), advance ?e (Suc j)))
   \<or> ((\<forall>i<?k. in_cooldown now m (slot m i))
          \<and> get_next_key now m = Inr (None, advance ?e ?k))"
    by (simp add: expire_failed_None get_next_key_def)
  then show ?thesis
  proof
    assume "\<exists>j<?k. \<not> in_cooldown now m (slot m j)
          \<and> (\<forall>i<j. in_cooldown now m (slot m i))
          \<and> get_next_key now m = Inr (Some (slot m j), advance ?e (Suc j))"
    then obtain j where j: "j < ?k" "\<not> in_cooldown now m (slot m j)"
       "\<forall>i<j. in_cooldown now m (slot m i)"
       "get_next_key now m = Inr (Some (slot m j), advance ?e (Suc j))" by blast
    have mem: "slot m j \<in> set (api_keys m)" using kpos by (rule slot_in_set)
    show ?thesis using j mem by auto
  next
    assume A: "(\<forall>i<?k. in_cooldown now m (slot m i))
          \<and> get_next_key now m = Inr (None, advance ?e ?k)"
    have all: "\<forall>key\<in>set (api_keys m). in_cooldown now m key"
    proof
      fix key assume "key \<in> set (api_keys m)"
      from slot_cover[OF inv this] A show "in_cooldown now m key" by auto
    qed
    then have "\<not> length (filter (in_cooldown now m) (api_keys m)) < ?k"
      using filter_all_length by blast
    with A all show ?thesis by simp
  qed
qed

theorem get_next_key_ok_witness:
  "current_index km_example < length (api_keys km_example)
   \<and> length (filter (in_cooldown 1000 km_example) (api_keys km_example))
       < length (api_keys km_example)
   \<and> (\<exists>key m'. get_next_key 1000 km_example = Inr (Some key, m')
         \<and> key \<in> set (api_keys km_example) \<and> \<not> in_cooldown 1000 km_example key)"
proof -
  have h1: "current_index km_example < length (api_keys km_example)"
    by (simp add: km_example_fields)
  have h2: "length (filter (in_cooldown 1000 km_example) (api_keys km_example))
              < length (api_keys km_example)"
    by (simp add: km_example_fields km_example_cooldown)
  from get_next_key_ok[OF h1, of 1000] h2 h1 show ?thesis by (metis not_None_eq)
qed

text \<open>
  Claim C10. A key manager whose credential list is empty answers \<open>get_next_key\<close> with
  \<open>None\<close> and raises nothing: the loop bound is zero, so the body, with its indexing
  and its modulus, is never entered. Only the expired cooldown entries are dropped.
\<close>

theorem get_next_key_empty:
  "get_next_key now (m\<lparr>api_keys := []\<rparr>)
     = Inr (None, expire_cooldowns now (m\<lparr>api_keys := []\<rparr>))"
  by (simp add: get_next_key_def scan_keys.simps)

section \<open>Properties of the request converter\<close>

subsection \<open>When the conversion returns, and what it returns\<close>

lemma and_then_Inr: "and_then r f = Inr y \<longleftrightarrow> (\<exists>v. r = Inr v \<and> f v = Inr y)"
  by (cases r) (auto simp: and_then_def)

lemma and_then_Inl: "and_then r f = Inl e \<longleftrightarrow> r = Inl e \<or> (\<exists>v. r = Inr v \<and> f v = Inl e)"
  by (cases r) (auto simp: and_then_def)

lemma read_cache_flag_Inr: "read_cache_flag cfg = Inr b \<longleftrightarrow> supports_prompt_cache cfg = Some b"
  by (simp add: read_cache_flag_def split: option.splits)

lemma collect_Inr:
  "collect f xs = Inr ys \<Longrightarrow> length ys = length xs \<and> (\<forall>i<length xs. f (xs ! i) = Inr (ys ! i))"
proof (induction xs arbitrary: ys)
  case Nil
  then show ?case by simp
next
  case (Cons x xs)
  then obtain y ys' where y: "f x = Inr y" "collect f xs = Inr ys'" "ys = y # ys'"
    by (auto split: sum.splits)
  from Cons.IH[OF y(2)] y show ?case by (auto simp: nth_Cons split: nat.splits)
qed

lemma collect_ok:
  "(\<forall>x\<in>set xs. \<exists>y. f x = Inr y) \<Longrightarrow> \<exists>ys. collect f xs = Inr ys"
  by (induction xs) (auto split: sum.splits)

lemma tool_result_message_Inr:
  "is_tool_result b \<Longrightarrow> tool_result_message lib b = Inr m \<Longrightarrow>
   \<exists>i c v. b = ToolResult i c \<and> parse_tool_result_content lib c = Inr v
      \<and> m = \<lparr>role = ROLE_TOOL, content = content_of_json v, tool_call_id = Some i, tool_calls = None\<rparr>"
  by (cases b) (auto split: sum.splits)

text \<open>The target messages of one user message with mixed blocks.\<close>

lemma convert_message_mixed:
  assumes mixed: "filter is_text_or_image parts \<noteq> []"
    and c: "convert_message lib \<lparr>msg_role = ROLE_USER, msg_content = Blocks parts\<rparr> = Inr ms"
  shows "length ms = length (filter is_tool_result parts) + 1
       \<and> (\<forall>k<length (filter is_tool_result parts). \<exists>i c v.
             filter is_tool_result parts ! k = ToolResult i c
           \<and> parse_tool_result_content lib c = Inr v
           \<and> ms ! k = \<lparr>role = ROLE_TOOL, content = content_of_json v,
                        tool_call_id = Some i, tool_calls = None\<rparr>)
       \<and> ms ! length (filter is_tool_result parts)
           = plain_message ROLE_USER
               (convert_content_blocks_to_openai lib (filter is_text_or_image parts))"
proof -
  let ?trs = "filter is_tool_result parts"
  from c obtain tms where tms: "collect (tool_result_message lib) ?trs = Inr tms"
     and ms: "ms = tms @ [plain_message ROLE_USER (convert_content_blocks_to_openai lib (filter is_text_or_image parts))]"
    using mixed by (auto simp: convert_message_def Let_def split: sum.splits)
  note col = collect_Inr[OF tms]
  have a: "length ms = length ?trs + 1" using col ms by simp
  have b: "ms ! length ?trs = plain_message ROLE_USER
                   (convert_content_blocks_to_openai lib (filter is_text_or_image parts))"
    using col ms by (simp add: nth_append)
  have d: "\<forall>k<length ?trs. \<exists>i c v. ?trs ! k = ToolResult i c \<and> parse_tool_result_content lib c = Inr v
               \<and> ms ! k = \<lparr>role = ROLE_TOOL, content = content_of_json v,
                            tool_call_id = Some i, tool_calls = None\<rparr>"
  proof (intro allI impI)
    fix k assume k: "k < length ?trs"
    then have "tool_result_message lib (?trs ! k) = Inr (tms ! k)" using col by simp
    moreover have "is_tool_result (?trs ! k)" using k nth_mem[OF k] by simp
    ultimately obtain i c v where "?trs ! k = ToolResult i c" "parse_tool_result_content lib c = Inr v"
      "tms ! k = \<lparr>role = ROLE_TOOL, content = content_of_json v, tool_call_id = Some i, tool_calls = None\<rparr>"
      using tool_result_message_Inr by blast
    moreover have "ms ! k = tms ! k" using k col ms by (simp add: nth_append)
    ultimately show "\<exists>i c v. ?trs ! k = ToolResult i c \<and> parse_tool_result_content lib c = Inr v
               \<and> ms ! k = \<lparr>role = ROLE_TOOL, content = content_of_json v,
                            tool_call_id = Some i, tool_calls = None\<rparr>"
      by simp
  qed
  from a b d show ?thesis by blast
qed

lemma convert_messages_append:
  "convert_messages lib (pre @ post) = Inr ms \<longleftrightarrow>
     (\<exists>xs ys. convert_messages lib pre = Inr xs \<and> convert_messages lib post = Inr ys \<and> ms = xs @ ys)"
proof (induction pre arbitrary: ms)
  case Nil
  then show ?case by auto
next
  case (Cons a pre)
  show ?case
  proof (cases "convert_message lib a")
    case (Inl e)
    then show ?thesis by simp
  next
    case (Inr zs)
    show ?thesis
    proof (cases "convert_messages lib (pre @ post)")
      case (Inl e)
      with Inr Cons.IH show ?thesis by (auto split: sum.splits)
    next
      case r: (Inr ws)
      from Cons.IH[of ws] r obtain xs ys where
        "convert_messages lib pre = Inr xs" "convert_messages lib post = Inr ys" "ws = xs @ ys" by blast
      with Inr r show ?thesis by auto
    qed
  qed
qed

lemma convert_messages_Cons:
  "convert_messages lib (m # post) = Inr ms \<longleftrightarrow>
     (\<exists>zs ys. convert_message lib m = Inr zs \<and> convert_messages lib post = Inr ys \<and> ms = zs @ ys)"
  by (auto split: sum.splits)

lemma add_system_prefix:
  "add_system cfg s ms = Inr L \<longleftrightarrow> (\<exists>sys. add_system cfg s [] = Inr sys \<and> L = sys @ ms)"
proof (cases "system_truthy s \<and> strip (system_text s) \<noteq> []")
  case False
  then show ?thesis by (auto simp: add_system_def)
next
  case True
  show ?thesis
  proof (cases "read_cache_flag cfg")
    case (Inl e)
    with True show ?thesis by (simp add: add_system_def and_then_def)
  next
    case (Inr flag)
    with True show ?thesis by (cases flag) (auto simp: add_system_def and_then_def)
  qed
qed

lemma add_system_roles:
  "add_system cfg s [] = Inr sys \<Longrightarrow> \<forall>m\<in>set sys. role m = ROLE_SYSTEM"
  by (cases "read_cache_flag cfg")
     (auto simp: add_system_def and_then_def plain_message_def split: if_splits)

lemma convert_Inr:
  assumes "convert_claude_to_openai lib cfg mm rq = Inr r"
  shows "\<exists>ms sys flag. convert_messages lib (req_messages rq) = Inr ms
      \<and> add_system cfg (req_system rq) [] = Inr sys
      \<and> supports_prompt_cache cfg = Some flag
      \<and> messages r = (if flag then cache_last_two_users (sys @ ms) else sys @ ms)
      \<and> max_tokens r = min (max (req_max_tokens rq) (min_tokens_limit cfg)) (max_tokens_limit cfg)"
proof (cases "convert_messages lib (req_messages rq)")
  case (Inl e)
  with assms show ?thesis by (simp add: convert_claude_to_openai_def and_then_def)
next
  case ms: (Inr ms)
  show ?thesis
  proof (cases "add_system cfg (req_system rq) ms")
    case (Inl e)
    with assms ms show ?thesis by (simp add: convert_claude_to_openai_def and_then_def)
  next
    case L: (Inr L)
    then obtain sys where sys: "add_system cfg (req_system rq) [] = Inr sys" "L = sys @ ms"
      using add_system_prefix by blast
    show ?thesis
    proof (cases "supports_prompt_cache cfg")
      case None
      with assms ms L show ?thesis
        by (simp add: convert_claude_to_openai_def and_then_def read_cache_flag_def)
    next
      case (Some flag)
      with assms ms L have
        "messages r = (if flag then cache_last_two_users L else L)"
        "max_tokens r = min (max (req_max_tokens rq) (min_tokens_limit cfg)) (max_tokens_limit cfg)"
        by (auto simp add: convert_claude_to_openai_def and_then_def read_cache_flag_def Let_def)
      with ms sys Some show ?thesis by blast
    qed
  qed
qed

lemma add_system_returns:
  "supports_prompt_cache cfg \<noteq> None \<Longrightarrow> \<exists>L. add_system cfg s ms = Inr L"
  by (auto simp: add_system_def and_then_def read_cache_flag_def)

lemma convert_returns:
  assumes "supports_prompt_cache cfg \<noteq> None" "convert_messages lib (req_messages rq) = Inr ms"
  shows "\<exists>r. convert_claude_to_openai lib cfg mm rq = Inr r"
proof -
  from assms(1) obtain flag where f: "read_cache_flag cfg = Inr flag"
    by (auto simp: read_cache_flag_def)
  from add_system_returns[OF assms(1)] obtain L where "add_system cfg (req_system rq) ms = Inr L" by blast
  with f assms(2) show ?thesis
    unfolding convert_claude_to_openai_def Let_def by (simp add: and_then_def)
qed

lemma convert_unset_flag_raises:
  assumes "supports_prompt_cache cfg = None" "convert_messages lib (req_messages rq) = Inr ms"
  shows "convert_claude_to_openai lib cfg mm rq = Inl AttributeError"
  using assms unfolding convert_claude_to_openai_def Let_def
  by (auto simp: and_then_def read_cache_flag_def add_system_def split: sum.splits)

lemma convert_message_returns:
  "message_normalizes lib m \<Longrightarrow> \<exists>zs. convert_message lib m = Inr zs"
proof (cases "msg_content m")
  case (Str s)
  then show ?thesis by (simp add: convert_message_def)
next
  case (Blocks parts)
  assume n: "message_normalizes lib m"
  show ?thesis
  proof (cases "msg_role m = ROLE_USER")
    case True
    with n Blocks have all: "list_all (block_normalizes lib) parts" by (simp add: message_normalizes_def)
    have "\<forall>b\<in>set (filter is_tool_result parts). \<exists>y. tool_result_message lib b = Inr y"
    proof
      fix b assume b: "b \<in> set (filter is_tool_result parts)"
      then have bp: "b \<in> set parts" and bt: "is_tool_result b" by simp_all
      from bt obtain i c where bc: "b = ToolResult i c" by (cases b) simp_all
      from all bp have "block_normalizes lib b" by (simp add: list_all_iff)
      with bc show "\<exists>y. tool_result_message lib b = Inr y" by (auto split: sum.splits)
    qed
    then obtain tms where "collect (tool_result_message lib) (filter is_tool_result parts) = Inr tms"
      using collect_ok by blast
    with True Blocks show ?thesis by (simp add: convert_message_def Let_def)
  next
    case False
    with Blocks show ?thesis by (simp add: convert_message_def Let_def)
  qed
qed

lemma convert_messages_returns:
  "list_all (message_normalizes lib) msgs \<Longrightarrow> \<exists>ms. convert_messages lib msgs = Inr ms"
proof (induction msgs)
  case Nil
  then show ?case by simp
next
  case (Cons m msgs)
  then obtain zs ys where "convert_message lib m = Inr zs" "convert_messages lib msgs = Inr ys"
    using convert_message_returns by fastforce
  then show ?case by simp
qed

subsection \<open>The marking of the code and the marking of the spec\<close>

lemma no_text_dropWhile:
  "\<not> list_ex is_text_part ps \<Longrightarrow> dropWhile (\<lambda>p. \<not> is_text_part p) (rev ps) = []"
  by (simp add: list_ex_iff)

lemma spec_mark_no_text:
  "\<not> list_ex is_text_part ps \<Longrightarrow> spec_mark_elements ps = ps @ [TextPart ''...'' (Some ''ephemeral'')]"
  by (simp add: spec_mark_elements_def no_text_dropWhile)

lemma last_text_split:
  "list_ex is_text_part ps \<Longrightarrow>
   \<exists>pre t c post. ps = pre @ TextPart t c # post \<and> \<not> list_ex is_text_part post"
proof (induction ps rule: rev_induct)
  case Nil
  then show ?case by simp
next
  case (snoc x xs)
  show ?case
  proof (cases x)
    case (TextPart t c)
    then have "xs @ [x] = xs @ TextPart t c # [] \<and> \<not> list_ex is_text_part []" by simp
    then show ?thesis by blast
  next
    case (ImageUrlPart u)
    with snoc.prems have "list_ex is_text_part xs" by simp
    from snoc.IH[OF this] obtain pre t c post where
      "xs = pre @ TextPart t c # post" "\<not> list_ex is_text_part post" by blast
    with ImageUrlPart have "xs @ [x] = pre @ TextPart t c # (post @ [x]) \<and> \<not> list_ex is_text_part (post @ [x])"
      by simp
    then show ?thesis by blast
  qed
qed

lemma mark_last_text_split:
  "\<not> list_ex is_text_part post \<Longrightarrow>
   mark_last_text (pre @ TextPart t c # post) = pre @ TextPart t (Some ''ephemeral'') # post"
proof (induction pre)
  case Nil
  then show ?case by simp
next
  case (Cons x pre)
  then show ?case by (cases x) simp_all
qed

lemma spec_mark_split:
  assumes "\<not> list_ex is_text_part post"
  shows "spec_mark_elements (pre @ TextPart t c # post) = pre @ TextPart t (Some ''ephemeral'') # post"
proof -
  let ?P = "\<lambda>p. \<not> is_text_part p"
  have all: "\<And>x. x \<in> set (rev post) \<Longrightarrow> ?P x" using assms by (simp add: list_ex_iff)
  have r: "rev (pre @ TextPart t c # post) = rev post @ TextPart t c # rev pre" by simp
  have "dropWhile ?P (rev post @ TextPart t c # rev pre) = dropWhile ?P (TextPart t c # rev pre)"
    by (rule dropWhile_append2) (rule all)
  then have d: "dropWhile ?P (rev (pre @ TextPart t c # post)) = TextPart t c # rev pre"
    unfolding r by simp
  have "takeWhile ?P (rev post @ TextPart t c # rev pre) = rev post @ takeWhile ?P (TextPart t c # rev pre)"
    by (rule takeWhile_append2) (rule all)
  then have k: "takeWhile ?P (rev (pre @ TextPart t c # post)) = rev post"
    unfolding r by simp
  show ?thesis unfolding spec_mark_elements_def Let_def d k by simp
qed

text \<open>The marking of the code is the marking of the spec.\<close>

lemma mark_parts_spec: "mark_parts ps = spec_mark_elements ps"
proof (cases "list_ex is_text_part ps")
  case False
  then show ?thesis by (simp add: mark_parts_def spec_mark_no_text)
next
  case True
  from last_text_split[OF True] obtain pre t c post where
    ps: "ps = pre @ TextPart t c # post" and post: "\<not> list_ex is_text_part post" by blast
  from True have "mark_parts ps = mark_last_text ps" by (simp add: mark_parts_def)
  then show ?thesis unfolding ps by (simp only: mark_last_text_split[OF post] spec_mark_split[OF post])
qed

lemma add_cache_control_spec:
  "add_cache_control m = m\<lparr>content := spec_mark_content (content m)\<rparr>"
  by (cases "content m") (simp_all add: add_cache_control_def mark_parts_spec)

subsection \<open>Prompt-cache markers\<close>

lemma marked_imp_text: "list_ex part_marked ps \<Longrightarrow> list_ex is_text_part ps"
  by (induction ps rule: only_last_text_marked.induct) auto

lemma mark_last_text_text [simp]: "list_ex is_text_part (mark_last_text ps) = list_ex is_text_part ps"
  by (induction ps rule: mark_last_text.induct) auto

lemma mark_last_text_ok:
  "list_ex is_text_part ps \<Longrightarrow> \<not> list_ex part_marked ps \<Longrightarrow> only_last_text_marked (mark_last_text ps)"
  by (induction ps rule: mark_last_text.induct) (auto dest: marked_imp_text)

lemma append_dots_ok:
  "\<not> list_ex is_text_part ps \<Longrightarrow> only_last_text_marked (ps @ [TextPart ''...'' (Some ''ephemeral'')])"
  by (induction ps rule: only_last_text_marked.induct) auto

lemma mark_parts_ok: "\<not> list_ex part_marked ps \<Longrightarrow> only_last_text_marked (mark_parts ps)"
  by (simp add: mark_parts_def mark_last_text_ok append_dots_ok)

lemma only_last_imp_marked: "only_last_text_marked ps \<Longrightarrow> list_ex part_marked ps"
  by (induction ps rule: only_last_text_marked.induct) (auto split: if_splits)

lemma role_add_cache_control [simp]: "role (add_cache_control m) = role m"
  by (simp add: add_cache_control_def split: openai_content.splits)

lemma add_cache_control_marked:
  "user_good m \<Longrightarrow> marked_on_last_text (add_cache_control m)"
  by (auto simp: user_good_def add_cache_control_def marked_on_last_text_def mark_parts_ok
      split: openai_content.splits)

lemma marked_on_last_text_has_marker: "marked_on_last_text m \<Longrightarrow> has_marker m"
  by (auto simp: marked_on_last_text_def has_marker_def only_last_imp_marked split: openai_content.splits)

lemma user_good_no_marker: "user_good m \<Longrightarrow> \<not> has_marker m"
  by (auto simp: user_good_def has_marker_def split: openai_content.splits)

lemma last_two_drop: "last_two xs = drop (length xs - 2) xs"
  by (simp add: last_two_def)

lemma filter_nth_positions:
  "filter P xs = map ((!) xs) (filter (\<lambda>i. P (xs ! i)) [0..<length xs])"
proof -
  have "filter P xs = filter P (map ((!) xs) [0..<length xs])" by (simp add: map_nth)
  also have "\<dots> = map ((!) xs) (filter (P \<circ> (!) xs) [0..<length xs])" by (simp only: filter_map)
  finally show ?thesis by (simp add: comp_def)
qed

lemma cache_length [simp]: "length (cache_last_two_users ms) = length ms"
  by (simp add: cache_last_two_users_def)

lemma cache_nth:
  "i < length ms \<Longrightarrow> cache_last_two_users ms ! i =
     (if i \<in> set (last_two (user_positions ms)) then add_cache_control (ms ! i) else ms ! i)"
  by (simp add: cache_last_two_users_def)

lemma cache_role: "i < length ms \<Longrightarrow> role (cache_last_two_users ms ! i) = role (ms ! i)"
  by (simp add: cache_nth)

lemma user_positions_cache: "user_positions (cache_last_two_users ms) = user_positions ms"
  unfolding user_positions_def
  by (rule filter_cong) (auto simp: cache_role)

lemma users_as_positions: "filter is_user ms = map ((!) ms) (user_positions ms)"
  unfolding user_positions_def is_user_def by (rule filter_nth_positions)

lemma user_positions_props:
  "distinct (user_positions ms)" "i \<in> set (user_positions ms) \<Longrightarrow> i < length ms \<and> role (ms ! i) = ROLE_USER"
  by (auto simp: user_positions_def)

lemma cache_users:
  assumes good: "\<forall>m\<in>set xs. role m = ROLE_USER \<longrightarrow> user_good m"
  shows "let us = filter is_user (cache_last_two_users xs) in
           length (filter has_marker us) = min (length us) 2
         \<and> (\<forall>m\<in>set (last_two us). marked_on_last_text m)
         \<and> (\<forall>m\<in>set (take (length us - 2) us). \<not> has_marker m)"
proof -
  let ?ys = "cache_last_two_users xs"
  let ?ps = "user_positions xs"
  let ?k = "length ?ps - 2"
  let ?us = "filter is_user ?ys"
  have us: "?us = map ((!) ?ys) ?ps"
    using users_as_positions[of ?ys] by (simp add: user_positions_cache)
  have psplit: "?ps = take ?k ?ps @ drop ?k ?ps" by simp
  have dis: "set (take ?k ?ps) \<inter> set (drop ?k ?ps) = {}"
    using user_positions_props(1)[of xs] psplit by (metis distinct_append)
  have bck: "\<And>i. i \<in> set (drop ?k ?ps) \<Longrightarrow> marked_on_last_text (?ys ! i)"
  proof -
    fix i assume i: "i \<in> set (drop ?k ?ps)"
    then have ip: "i \<in> set ?ps" by (meson in_set_dropD)
    then have il: "i < length xs" and ir: "role (xs ! i) = ROLE_USER"
      using user_positions_props(2) by blast+
    then have "user_good (xs ! i)" using good by simp
    moreover have "?ys ! i = add_cache_control (xs ! i)" using il i by (simp add: cache_nth last_two_drop)
    ultimately show "marked_on_last_text (?ys ! i)" by (simp add: add_cache_control_marked)
  qed
  have frt: "\<And>i. i \<in> set (take ?k ?ps) \<Longrightarrow> \<not> has_marker (?ys ! i)"
  proof -
    fix i assume i: "i \<in> set (take ?k ?ps)"
    then have ip: "i \<in> set ?ps" by (meson in_set_takeD)
    then have il: "i < length xs" and ir: "role (xs ! i) = ROLE_USER"
      using user_positions_props(2) by blast+
    then have "user_good (xs ! i)" using good by simp
    moreover have "i \<notin> set (drop ?k ?ps)" using i dis by blast
    then have "?ys ! i = xs ! i" using il by (simp add: cache_nth last_two_drop)
    ultimately show "\<not> has_marker (?ys ! i)" by (simp add: user_good_no_marker)
  qed
  have len: "length ?us = length ?ps" using us by simp
  have l2: "last_two ?us = map ((!) ?ys) (drop ?k ?ps)"
    by (simp add: last_two_drop len) (simp add: us drop_map)
  have t2: "take (length ?us - 2) ?us = map ((!) ?ys) (take ?k ?ps)"
    by (simp add: len) (simp add: us take_map)
  have "?us = take (length ?us - 2) ?us @ last_two ?us" by (simp add: last_two_drop)
  then have "filter has_marker ?us = filter has_marker (take (length ?us - 2) ?us) @ filter has_marker (last_two ?us)"
    by (metis filter_append)
  moreover have "filter has_marker (take (length ?us - 2) ?us) = []"
    using frt by (simp add: t2 filter_empty_conv)
  moreover have "filter has_marker (last_two ?us) = last_two ?us"
    using bck by (simp add: l2 filter_id_conv marked_on_last_text_has_marker)
  ultimately have "length (filter has_marker ?us) = length (last_two ?us)" by simp
  also have "\<dots> = min (length ?us) 2" by (simp add: last_two_drop) 
  finally have c1: "length (filter has_marker ?us) = min (length ?us) 2" .
  have c2: "\<forall>m\<in>set (last_two ?us). marked_on_last_text m" using bck by (simp add: l2)
  have c3: "\<forall>m\<in>set (take (length ?us - 2) ?us). \<not> has_marker m" using frt by (simp add: t2)
  from c1 c2 c3 show ?thesis by (simp add: Let_def)
qed


lemma convert_block_unmarked: "\<not> list_ex part_marked (convert_block lib b)"
  by (induction lib b rule: convert_block.induct) auto

lemma concat_unmarked: "\<not> list_ex part_marked (concat (map (convert_block lib) bs))"
  by (induction bs) (auto simp: convert_block_unmarked)

lemma blocks_content_good:
  "user_good (plain_message r (convert_content_blocks_to_openai lib bs))"
proof -
  have "\<not> list_ex part_marked (concat (map (convert_block lib) bs))" by (rule concat_unmarked)
  then show ?thesis
    by (auto simp: user_good_def plain_message_def convert_content_blocks_to_openai_def
          split: list.splits openai_part.splits)
qed

lemma content_of_json_no_parts: "content_of_json v \<noteq> OParts ps"
  by (cases v) auto

lemma tool_result_message_ok: "tool_result_message lib b = Inr m \<Longrightarrow> msg_ok m"
  by (cases b)
     (auto simp: msg_ok_def has_marker_def ROLE_TOOL_def ROLE_USER_def content_of_json_no_parts
           split: sum.splits openai_content.splits)

lemma collect_all: "collect f xs = Inr ys \<Longrightarrow> (\<And>x y. f x = Inr y \<Longrightarrow> P y) \<Longrightarrow> \<forall>y\<in>set ys. P y"
  by (induction xs arbitrary: ys) (auto split: sum.splits)

lemma convert_message_ok:
  assumes "convert_message lib a = Inr ms"
  shows "\<forall>m\<in>set ms. msg_ok m"
proof (cases "msg_content a")
  case (Str s)
  with assms show ?thesis
    by (auto simp: convert_message_def msg_ok_def has_marker_def user_good_def plain_message_def)
next
  case (Blocks parts)
  show ?thesis
  proof (cases "msg_role a = ROLE_USER")
    case True
    with Blocks assms obtain tms where
       tms: "collect (tool_result_message lib) (filter is_tool_result parts) = Inr tms"
       and ms: "ms = tms @ (if filter is_text_or_image parts \<noteq> []
                            then [plain_message ROLE_USER
                                   (convert_content_blocks_to_openai lib (filter is_text_or_image parts))]
                            else [])"
      by (auto simp: convert_message_def Let_def split: sum.splits)
    have "\<forall>m\<in>set tms. msg_ok m" using collect_all[OF tms] tool_result_message_ok by blast
    moreover have "msg_ok (plain_message ROLE_USER
                     (convert_content_blocks_to_openai lib (filter is_text_or_image parts)))"
      using blocks_content_good[of ROLE_USER lib] by (simp add: msg_ok_def user_good_no_marker)
    ultimately show ?thesis using ms by auto
  next
    case False
    with Blocks assms show ?thesis
      by (auto simp: convert_message_def Let_def msg_ok_def has_marker_def
             ROLE_ASSISTANT_def ROLE_USER_def split: if_splits)
  qed
qed

lemma convert_messages_ok: "convert_messages lib msgs = Inr xs \<Longrightarrow> \<forall>m\<in>set xs. msg_ok m"
proof (induction msgs arbitrary: xs)
  case Nil
  then show ?case by simp
next
  case (Cons a msgs)
  then obtain ys zs where "convert_message lib a = Inr ys" "convert_messages lib msgs = Inr zs" "xs = ys @ zs"
    by (auto split: sum.splits)
  with Cons.IH convert_message_ok show ?case by auto
qed

lemma cache_positions:
  assumes good: "\<forall>m\<in>set xs. role m = ROLE_USER \<longrightarrow> user_good m"
  shows "length (cache_last_two_users xs) = length xs"
    and "user_positions (cache_last_two_users xs) = user_positions xs"
    and "\<forall>i\<in>set (last_two (user_positions xs)).
            cache_last_two_users xs ! i = (xs ! i)\<lparr>content := spec_mark_content (content (xs ! i))\<rparr>
          \<and> marked_on_last_text (cache_last_two_users xs ! i)"
    and "\<forall>i<length xs. i \<notin> set (last_two (user_positions xs)) \<longrightarrow> cache_last_two_users xs ! i = xs ! i"
proof -
  show "length (cache_last_two_users xs) = length xs" by simp
  show "user_positions (cache_last_two_users xs) = user_positions xs" by (rule user_positions_cache)
  show "\<forall>i\<in>set (last_two (user_positions xs)).
            cache_last_two_users xs ! i = (xs ! i)\<lparr>content := spec_mark_content (content (xs ! i))\<rparr>
          \<and> marked_on_last_text (cache_last_two_users xs ! i)"
  proof
    fix i assume i: "i \<in> set (last_two (user_positions xs))"
    then have "i \<in> set (user_positions xs)" by (simp add: last_two_drop) (meson in_set_dropD)
    then have il: "i < length xs" and ir: "role (xs ! i) = ROLE_USER"
      using user_positions_props(2) by blast+
    then have g: "user_good (xs ! i)" using good by simp
    have e: "cache_last_two_users xs ! i = add_cache_control (xs ! i)" using il i by (simp add: cache_nth)
    show "cache_last_two_users xs ! i = (xs ! i)\<lparr>content := spec_mark_content (content (xs ! i))\<rparr>
          \<and> marked_on_last_text (cache_last_two_users xs ! i)"
      using e add_cache_control_spec[of "xs ! i"] add_cache_control_marked[OF g] by simp
  qed
  show "\<forall>i<length xs. i \<notin> set (last_two (user_positions xs)) \<longrightarrow> cache_last_two_users xs ! i = xs ! i"
    by (simp add: cache_nth)
qed

lemma add_system_all_ok:
  assumes "add_system cfg s [] = Inr sys" "\<forall>m\<in>set ms. msg_ok m"
  shows "\<forall>m\<in>set (sys @ ms). role m = ROLE_USER \<longrightarrow> user_good m"
proof -
  from add_system_roles[OF assms(1)] have "\<forall>m\<in>set sys. role m \<noteq> ROLE_USER"
    by (simp add: ROLE_SYSTEM_def ROLE_USER_def)
  with assms(2) show ?thesis by (auto simp: msg_ok_def)
qed

lemma add_system_off_unmarked:
  assumes "supports_prompt_cache cfg = Some False" "add_system cfg s [] = Inr sys"
  shows "\<forall>m\<in>set sys. \<not> has_marker m"
  using assms
  by (auto simp: add_system_def and_then_def read_cache_flag_def plain_message_def has_marker_def
      split: if_splits)

lemma add_system_flag:
  assumes "add_system (cfg\<lparr>supports_prompt_cache := Some a\<rparr>) s [] = Inr sys"
  shows "\<exists>sys'. add_system (cfg\<lparr>supports_prompt_cache := Some b\<rparr>) s [] = Inr sys'
            \<and> length sys' = length sys"
  using assms
  by (auto simp: add_system_def and_then_def read_cache_flag_def split: if_splits)

lemma user_positions_append_sys:
  assumes "\<forall>m\<in>set sys. role m \<noteq> ROLE_USER" "\<forall>m\<in>set sys'. role m \<noteq> ROLE_USER" "length sys' = length sys"
  shows "user_positions (sys' @ ms) = user_positions (sys @ ms)"
  unfolding user_positions_def
proof (rule filter_cong)
  show "[0..<length (sys' @ ms)] = [0..<length (sys @ ms)]" using assms(3) by simp
next
  fix i assume "i \<in> set [0..<length (sys @ ms)]"
  show "(role ((sys' @ ms) ! i) = ROLE_USER) = (role ((sys @ ms) ! i) = ROLE_USER)"
  proof (cases "i < length sys")
    case True
    then have "(sys @ ms) ! i \<in> set sys" "(sys' @ ms) ! i \<in> set sys'"
      using assms(3) by (simp_all add: nth_append)
    with assms(1,2) show ?thesis by blast
  next
    case False
    then show ?thesis using assms(3) by (simp add: nth_append)
  qed
qed

subsection \<open>Tool results before the user message\<close>

lemma nth_middle: "k < length b \<Longrightarrow> (a @ b @ c) ! (length a + k) = b ! k"
  by (simp add: nth_append)

lemma user_position_past_sys:
  assumes "\<forall>m\<in>set sys. role m \<noteq> ROLE_USER" "i \<in> set (user_positions (sys @ ms))"
  shows "length sys \<le> i"
proof (rule ccontr)
  assume "\<not> length sys \<le> i"
  then have "(sys @ ms) ! i \<in> set sys" by (simp add: nth_append)
  with assms(1) have "role ((sys @ ms) ! i) \<noteq> ROLE_USER" by blast
  with user_positions_props(2)[OF assms(2)] show False by simp
qed

lemma sys_not_user: "add_system cfg s [] = Inr sys \<Longrightarrow> \<forall>m\<in>set sys. role m \<noteq> ROLE_USER"
  using add_system_roles by (fastforce simp: ROLE_SYSTEM_def ROLE_USER_def)

text \<open>
  Claim C6. Let the source messages hold, at any place, a user message whose blocks mix
  tool results with text or image blocks, in any order. The conversion returns whenever
  the cache attribute is set and every tool result's content normalizes. In every
  converted message list it returns, after the system message and the messages of the
  earlier source messages, there is one message of role \<open>tool\<close> per tool result, in
  their order, each with the block's \<open>tool_use_id\<close> and its normalized content;
  directly after them comes the one user message built from the text and image blocks
  (with the cache marker attached when the cache stage selects it), and then the messages
  of the later source messages.
\<close>

theorem tool_results_precede_user_message:
  assumes msgs: "req_messages rq = pre @ \<lparr>msg_role = ROLE_USER, msg_content = Blocks parts\<rparr> # post"
    and mixed: "filter is_tool_result parts \<noteq> []" "filter is_text_or_image parts \<noteq> []"
  shows "(supports_prompt_cache cfg \<noteq> None \<and> list_all (message_normalizes lib) (req_messages rq)
            \<longrightarrow> (\<exists>r. convert_claude_to_openai lib cfg mm rq = Inr r))
       \<and> (\<forall>r. convert_claude_to_openai lib cfg mm rq = Inr r \<longrightarrow>
            (\<exists>sys xs ys. add_system cfg (req_system rq) [] = Inr sys
                \<and> convert_messages lib pre = Inr xs \<and> convert_messages lib post = Inr ys
                \<and> length (messages r)
                    = length sys + length xs + length (filter is_tool_result parts) + 1 + length ys
                \<and> (\<forall>k<length (filter is_tool_result parts). \<exists>i c v.
                      filter is_tool_result parts ! k = ToolResult i c
                    \<and> parse_tool_result_content lib c = Inr v
                    \<and> messages r ! (length sys + length xs + k)
                        = \<lparr>role = ROLE_TOOL, content = content_of_json v,
                           tool_call_id = Some i, tool_calls = None\<rparr>)
                \<and> (let u = messages r ! (length sys + length xs + length (filter is_tool_result parts));
                        built = convert_content_blocks_to_openai lib (filter is_text_or_image parts)
                    in role u = ROLE_USER \<and> tool_call_id u = None \<and> tool_calls u = None
                       \<and> (content u = built
                            \<or> supports_prompt_cache cfg = Some True
                              \<and> content u = spec_mark_content built))))"
proof (intro conjI allI impI)
  assume "supports_prompt_cache cfg \<noteq> None \<and> list_all (message_normalizes lib) (req_messages rq)"
  then show "\<exists>r. convert_claude_to_openai lib cfg mm rq = Inr r"
    using convert_messages_returns convert_returns by blast
next
  fix r assume conv: "convert_claude_to_openai lib cfg mm rq = Inr r"
  let ?trs = "filter is_tool_result parts"
  let ?n = "length ?trs"
  let ?built = "convert_content_blocks_to_openai lib (filter is_text_or_image parts)"
  let ?m = "\<lparr>msg_role = ROLE_USER, msg_content = Blocks parts\<rparr>"
  from convert_Inr[OF conv] obtain ms sys flag where
    ms: "convert_messages lib (req_messages rq) = Inr ms"
    and sys: "add_system cfg (req_system rq) [] = Inr sys"
    and flag: "supports_prompt_cache cfg = Some flag"
    and fin: "messages r = (if flag then cache_last_two_users (sys @ ms) else sys @ ms)" by blast
  from ms obtain xs ws where xs: "convert_messages lib pre = Inr xs"
    and ws: "convert_messages lib (?m # post) = Inr ws" and ms_eq: "ms = xs @ ws"
    unfolding msgs convert_messages_append by blast
  from ws obtain zs ys where zs: "convert_message lib ?m = Inr zs"
    and ys: "convert_messages lib post = Inr ys" and ws_eq: "ws = zs @ ys"
    unfolding convert_messages_Cons by blast
  note mixed_facts = convert_message_mixed[OF mixed(2) zs]
  have zlen: "length zs = ?n + 1" using mixed_facts by blast
  let ?L = "sys @ ms"
  let ?p = "length sys + length xs"
  have L: "?L = (sys @ xs) @ zs @ ys" by (simp add: ms_eq ws_eq)
  have Lnth: "\<And>k. k < length zs \<Longrightarrow> ?L ! (?p + k) = zs ! k"
    using nth_middle[of _ zs "sys @ xs" ys] by (simp add: L)
  have Llen: "length ?L = ?p + ?n + 1 + length ys" by (simp add: ms_eq ws_eq zlen)
  have flen: "length (messages r) = length ?L" by (simp add: fin)
  have fnth: "\<And>i. i < length ?L \<Longrightarrow>
      messages r ! i = ?L ! i
    \<or> role (?L ! i) = ROLE_USER \<and> flag
      \<and> messages r ! i = (?L ! i)\<lparr>content := spec_mark_content (content (?L ! i))\<rparr>"
  proof -
    fix i assume i: "i < length ?L"
    show "messages r ! i = ?L ! i
        \<or> role (?L ! i) = ROLE_USER \<and> flag
          \<and> messages r ! i = (?L ! i)\<lparr>content := spec_mark_content (content (?L ! i))\<rparr>"
    proof (cases "flag \<and> i \<in> set (last_two (user_positions ?L))")
      case False
      then show ?thesis using i by (auto simp: fin cache_nth)
    next
      case True
      then have "i \<in> set (user_positions ?L)" by (simp add: last_two_drop) (meson in_set_dropD)
      then have "role (?L ! i) = ROLE_USER" using user_positions_props(2) by blast
      moreover have "messages r ! i = add_cache_control (?L ! i)" using True i by (simp add: fin cache_nth)
      ultimately show ?thesis using True add_cache_control_spec[of "?L ! i"] by simp
    qed
  qed
  have tools: "\<forall>k<?n. \<exists>i c v. ?trs ! k = ToolResult i c \<and> parse_tool_result_content lib c = Inr v
        \<and> messages r ! (?p + k) = \<lparr>role = ROLE_TOOL, content = content_of_json v,
                           tool_call_id = Some i, tool_calls = None\<rparr>"
  proof (intro allI impI)
    fix k assume k: "k < ?n"
    with mixed_facts obtain i c v where t: "?trs ! k = ToolResult i c"
        "parse_tool_result_content lib c = Inr v"
        "zs ! k = \<lparr>role = ROLE_TOOL, content = content_of_json v, tool_call_id = Some i, tool_calls = None\<rparr>"
      by blast
    have lk: "?L ! (?p + k) = zs ! k" using k zlen by (intro Lnth) simp
    have "?p + k < length ?L" using k Llen by simp
    from fnth[OF this] lk t(3) have "messages r ! (?p + k) = zs ! k"
      by (auto simp: ROLE_TOOL_def ROLE_USER_def)
    with t show "\<exists>i c v. ?trs ! k = ToolResult i c \<and> parse_tool_result_content lib c = Inr v
        \<and> messages r ! (?p + k) = \<lparr>role = ROLE_TOOL, content = content_of_json v,
                           tool_call_id = Some i, tool_calls = None\<rparr>" by simp
  qed
  have un: "?L ! (?p + ?n) = plain_message ROLE_USER ?built"
    using Lnth[of ?n] zlen mixed_facts by simp
  have "?p + ?n < length ?L" using Llen by simp
  from fnth[OF this] un flag
  have user: "let u = messages r ! (?p + ?n); built = ?built
              in role u = ROLE_USER \<and> tool_call_id u = None \<and> tool_calls u = None
                 \<and> (content u = built \<or> supports_prompt_cache cfg = Some True \<and> content u = spec_mark_content built)"
    by (auto simp: Let_def plain_message_def)
  have len: "length (messages r) = ?p + ?n + 1 + length ys" using flen Llen by simp
  from sys xs ys len tools user
  show "\<exists>sys xs ys. add_system cfg (req_system rq) [] = Inr sys
                \<and> convert_messages lib pre = Inr xs \<and> convert_messages lib post = Inr ys
                \<and> length (messages r)
                    = length sys + length xs + length (filter is_tool_result parts) + 1 + length ys
                \<and> (\<forall>k<length (filter is_tool_result parts). \<exists>i c v.
                      filter is_tool_result parts ! k = ToolResult i c
                    \<and> parse_tool_result_content lib c = Inr v
                    \<and> messages r ! (length sys + length xs + k)
                        = \<lparr>role = ROLE_TOOL, content = content_of_json v,
                           tool_call_id = Some i, tool_calls = None\<rparr>)
                \<and> (let u = messages r ! (length sys + length xs + length (filter is_tool_result parts));
                        built = convert_content_blocks_to_openai lib (filter is_text_or_image parts)
                    in role u = ROLE_USER \<and> tool_call_id u = None \<and> tool_calls u = None
                       \<and> (content u = built
                            \<or> supports_prompt_cache cfg = Some True
                              \<and> content u = spec_mark_content built))"
    by blast
qed

lemma strip_be_brief: "strip ''Be brief'' = ''Be brief''"
  by (simp add: strip_def is_py_space_def)

lemma cfg_fields [simp]:
  "supports_prompt_cache cfg_cache_on = Some True" "supports_prompt_cache cfg_cache_off = Some False"
  "max_tokens_limit cfg_cache_on = 4096" "min_tokens_limit cfg_cache_on = 100"
  "max_tokens_limit cfg_cache_off = 4096" "min_tokens_limit cfg_cache_off = 100"
  by (simp_all add: cfg_cache_on_def cfg_cache_off_def config_from_env_def)

lemma mixed_messages:
  "map_sum id messages (convert_claude_to_openai lib_example cfg_cache_on id request_mixed) =
     Inr [plain_message ''system'' (OParts [TextPart ''Be brief'' (Some ''ephemeral'')]),
          plain_message ''user'' (OParts [TextPart ''Run the tool'' (Some ''ephemeral'')]),
          \<lparr>role = ''assistant'', content = ONone, tool_call_id = None,
            tool_calls = Some [\<lparr>call_id = ''tool-456'', call_type = ''function'', call_name = ''run'',
                                call_arguments = ''{}''\<rparr>]\<rparr>,
          \<lparr>role = ''tool'', content = OStr ''Tool execution completed successfully'',
            tool_call_id = Some ''tool-456'', tool_calls = None\<rparr>,
          plain_message ''user''
            (OParts [TextPart ''Here is the context after tool execution:'' (Some ''ephemeral'')])]"
  by (simp add: convert_claude_to_openai_def request_mixed_def parts_example_def lib_example_def
        convert_message_def Let_def add_system_def system_text_def strip_be_brief and_then_def
        read_cache_flag_def
        cache_last_two_users_def user_positions_def last_two_def add_cache_control_def
        mark_parts_def plain_message_def convert_content_blocks_to_openai_def
        ROLE_USER_def ROLE_SYSTEM_def ROLE_ASSISTANT_def ROLE_TOOL_def TOOL_FUNCTION_def)

theorem tool_results_precede_user_message_witness:
  "req_messages request_mixed
     = [\<lparr>msg_role = ''user'', msg_content = Str ''Run the tool''\<rparr>,
        \<lparr>msg_role = ''assistant'', msg_content = Blocks [ToolUse ''tool-456'' ''run'' (JDict [])]\<rparr>]
       @ \<lparr>msg_role = ROLE_USER, msg_content = Blocks parts_example\<rparr> # []
   \<and> filter is_tool_result parts_example \<noteq> []
   \<and> filter is_text_or_image parts_example \<noteq> []
   \<and> supports_prompt_cache cfg_cache_on \<noteq> None
   \<and> list_all (message_normalizes lib_example) (req_messages request_mixed)
   \<and> (\<exists>r. convert_claude_to_openai lib_example cfg_cache_on id request_mixed = Inr r
         \<and> length (messages r) = 5
         \<and> messages r ! 3 = \<lparr>role = ''tool'', content = OStr ''Tool execution completed successfully'',
                                tool_call_id = Some ''tool-456'', tool_calls = None\<rparr>
         \<and> messages r ! 4 = plain_message ''user''
              (OParts [TextPart ''Here is the context after tool execution:'' (Some ''ephemeral'')]))"
proof -
  have h1: "req_messages request_mixed
     = [\<lparr>msg_role = ''user'', msg_content = Str ''Run the tool''\<rparr>,
        \<lparr>msg_role = ''assistant'', msg_content = Blocks [ToolUse ''tool-456'' ''run'' (JDict [])]\<rparr>]
       @ \<lparr>msg_role = ROLE_USER, msg_content = Blocks parts_example\<rparr> # []"
    by (simp add: request_mixed_def ROLE_USER_def)
  have h2: "filter is_tool_result parts_example \<noteq> []" by (simp add: parts_example_def)
  have h3: "filter is_text_or_image parts_example \<noteq> []" by (simp add: parts_example_def)
  have h4: "supports_prompt_cache cfg_cache_on \<noteq> None" by simp
  have h5: "list_all (message_normalizes lib_example) (req_messages request_mixed)"
    by (simp add: request_mixed_def message_normalizes_def parts_example_def ROLE_USER_def)
  from tool_results_precede_user_message[OF h1 h2 h3, of cfg_cache_on lib_example id] h4 h5
  obtain r where r: "convert_claude_to_openai lib_example cfg_cache_on id request_mixed = Inr r"
    by blast
  with mixed_messages have "messages r = [plain_message ''system'' (OParts [TextPart ''Be brief'' (Some ''ephemeral'')]),
          plain_message ''user'' (OParts [TextPart ''Run the tool'' (Some ''ephemeral'')]),
          \<lparr>role = ''assistant'', content = ONone, tool_call_id = None,
            tool_calls = Some [\<lparr>call_id = ''tool-456'', call_type = ''function'', call_name = ''run'',
                                call_arguments = ''{}''\<rparr>]\<rparr>,
          \<lparr>role = ''tool'', content = OStr ''Tool execution completed successfully'',
            tool_call_id = Some ''tool-456'', tool_calls = None\<rparr>,
          plain_message ''user''
            (OParts [TextPart ''Here is the context after tool execution:'' (Some ''ephemeral'')])]"
    by simp
  with r h1 h2 h3 h4 h5 show ?thesis by simp
qed

subsection \<open>The token limit\<close>

text \<open>
  Claim C8. For limits that form an interval (\<open>min_limit \<le> max_limit\<close>) and every requested
  value: the conversion returns whenever the cache attribute is set and every tool
  result's content normalizes, and in every request it returns \<open>max_tokens\<close> equals
  \<open>min(max(requested, min_limit), max_limit)\<close> and lies within \<open>[min_limit, max_limit]\<close>.
\<close>

theorem max_tokens_clamped:
  assumes "min_tokens_limit cfg \<le> max_tokens_limit cfg"
  shows "(supports_prompt_cache cfg \<noteq> None \<and> list_all (message_normalizes lib) (req_messages rq)
            \<longrightarrow> (\<exists>r. convert_claude_to_openai lib cfg mm rq = Inr r))
       \<and> (\<forall>r. convert_claude_to_openai lib cfg mm rq = Inr r \<longrightarrow>
              max_tokens r = min (max (req_max_tokens rq) (min_tokens_limit cfg)) (max_tokens_limit cfg)
            \<and> min_tokens_limit cfg \<le> max_tokens r
            \<and> max_tokens r \<le> max_tokens_limit cfg)"
proof (intro conjI allI impI)
  assume "supports_prompt_cache cfg \<noteq> None \<and> list_all (message_normalizes lib) (req_messages rq)"
  then show "\<exists>r. convert_claude_to_openai lib cfg mm rq = Inr r"
    using convert_messages_returns convert_returns by blast
next
  fix r assume "convert_claude_to_openai lib cfg mm rq = Inr r"
  from convert_Inr[OF this]
  have m: "max_tokens r = min (max (req_max_tokens rq) (min_tokens_limit cfg)) (max_tokens_limit cfg)"
    by blast
  show "max_tokens r = min (max (req_max_tokens rq) (min_tokens_limit cfg)) (max_tokens_limit cfg)"
    by (rule m)
  show "min_tokens_limit cfg \<le> max_tokens r" using m assms by simp
  show "max_tokens r \<le> max_tokens_limit cfg" using m by simp
qed

theorem max_tokens_clamped_witness:
  "min_tokens_limit cfg_cache_off \<le> max_tokens_limit cfg_cache_off
   \<and> supports_prompt_cache cfg_cache_off \<noteq> None
   \<and> list_all (message_normalizes lib_example) (req_messages request_hello)
   \<and> req_max_tokens request_hello = 10
   \<and> (\<exists>r. convert_claude_to_openai lib_example cfg_cache_off id request_hello = Inr r
         \<and> max_tokens r = 100)"
proof -
  have h1: "min_tokens_limit cfg_cache_off \<le> max_tokens_limit cfg_cache_off" by simp
  have h2: "supports_prompt_cache cfg_cache_off \<noteq> None" by simp
  have h3: "list_all (message_normalizes lib_example) (req_messages request_hello)"
    by (simp add: request_hello_def message_normalizes_def)
  have h4: "req_max_tokens request_hello = 10" by (simp add: request_hello_def)
  from max_tokens_clamped[OF h1, of lib_example request_hello id] h2 h3
  obtain r where r: "convert_claude_to_openai lib_example cfg_cache_off id request_hello = Inr r"
    and "max_tokens r = min (max (req_max_tokens request_hello) (min_tokens_limit cfg_cache_off))
                            (max_tokens_limit cfg_cache_off)"
    by blast
  then have "max_tokens r = 100" by (simp add: h4)
  with r h1 h2 h3 h4 show ?thesis by blast
qed

lemma max_tokens_above_maximum:
  "convert_claude_to_openai lib_example cfg_cache_off id (request_hello\<lparr>req_max_tokens := 100000\<rparr>) = Inr r
   \<Longrightarrow> max_tokens r = 4096"
  by (drule convert_Inr) auto

text \<open>
  On the object that \<open>config.py\<close> builds, which has no cache attribute, the conversion of
  a request whose messages convert raises \<open>AttributeError\<close> at line 140, or at line 125
  when there is a system message, before the request is built.
\<close>

lemma config_from_env_raises:
  "convert_messages lib (req_messages rq) = Inr ms \<Longrightarrow>
   convert_claude_to_openai lib (config_from_env max_env min_env) mm rq = Inl AttributeError"
  by (rule convert_unset_flag_raises) (simp_all add: config_from_env_def)

subsection \<open>The cache markers of the converted list\<close>

lemma convert_off_unmarked:
  assumes "supports_prompt_cache cfg = Some False" "convert_claude_to_openai lib cfg mm rq = Inr r0"
  shows "\<forall>m\<in>set (messages r0). \<not> has_marker m"
proof -
  from convert_Inr[OF assms(2)] assms(1) obtain ms sys where
    ms: "convert_messages lib (req_messages rq) = Inr ms"
    and sys: "add_system cfg (req_system rq) [] = Inr sys"
    and fin: "messages r0 = sys @ ms" by auto
  from convert_messages_ok[OF ms] have "\<forall>m\<in>set ms. \<not> has_marker m" by (simp add: msg_ok_def)
  with add_system_off_unmarked[OF assms(1) sys] fin show ?thesis by auto
qed

text \<open>
  Claim C7. With the cache attribute clear, no message of the converted list carries a
  marker. With it set, the converted list is compared with the one the same request
  gives with the attribute clear: the two have their user messages at the same
  positions; each of the last two user messages (all of them when there are fewer) is
  the message of the unmarked list with its content marked as the spec words it (a bare
  string made a one-element list, the marker attached to the last text element, an element
  \<open>"..."\<close> carrying it appended when there is no text element), so that the marker is on
  its last text part and nowhere else; every earlier user message is unchanged; and so
  exactly \<open>min(N, 2)\<close> of the \<open>N\<close> user messages carry a marker.
\<close>

theorem cache_markers:
  "(\<forall>r0. convert_claude_to_openai lib (cfg\<lparr>supports_prompt_cache := Some False\<rparr>) mm rq = Inr r0
         \<longrightarrow> (\<forall>m\<in>set (messages r0). \<not> has_marker m))
   \<and> (\<forall>r1. convert_claude_to_openai lib (cfg\<lparr>supports_prompt_cache := Some True\<rparr>) mm rq = Inr r1
         \<longrightarrow> (\<exists>r0. convert_claude_to_openai lib (cfg\<lparr>supports_prompt_cache := Some False\<rparr>) mm rq = Inr r0
               \<and> length (messages r1) = length (messages r0)
               \<and> user_positions (messages r1) = user_positions (messages r0)
               \<and> (\<forall>i\<in>set (last_two (user_positions (messages r0))).
                     messages r1 ! i
                       = (messages r0 ! i)\<lparr>content := spec_mark_content (content (messages r0 ! i))\<rparr>
                   \<and> marked_on_last_text (messages r1 ! i))
               \<and> (\<forall>i\<in>set (user_positions (messages r0)).
                     i \<notin> set (last_two (user_positions (messages r0)))
                     \<longrightarrow> messages r1 ! i = messages r0 ! i)
               \<and> length (filter has_marker (filter is_user (messages r1)))
                   = min (length (user_positions (messages r0))) 2))"
proof (intro conjI allI impI)
  fix r0 assume "convert_claude_to_openai lib (cfg\<lparr>supports_prompt_cache := Some False\<rparr>) mm rq = Inr r0"
  then show "\<forall>m\<in>set (messages r0). \<not> has_marker m"
    by (intro convert_off_unmarked[of "cfg\<lparr>supports_prompt_cache := Some False\<rparr>"]) simp_all
next
  let ?on = "cfg\<lparr>supports_prompt_cache := Some True\<rparr>"
  let ?off = "cfg\<lparr>supports_prompt_cache := Some False\<rparr>"
  fix r1 assume on: "convert_claude_to_openai lib ?on mm rq = Inr r1"
  from convert_Inr[OF on] obtain ms sys1 where
    ms: "convert_messages lib (req_messages rq) = Inr ms"
    and sys1: "add_system ?on (req_system rq) [] = Inr sys1"
    and fin1: "messages r1 = cache_last_two_users (sys1 @ ms)" by auto
  have "supports_prompt_cache ?off \<noteq> None" by simp
  from convert_returns[OF this ms] obtain r0 where off: "convert_claude_to_openai lib ?off mm rq = Inr r0"
    by blast
  from convert_Inr[OF off] ms obtain sys0 where
    sys0: "add_system ?off (req_system rq) [] = Inr sys0"
    and fin0: "messages r0 = sys0 @ ms" by auto
  from add_system_flag[OF sys1, of False] sys0 have slen: "length sys0 = length sys1" by auto
  note nu1 = sys_not_user[OF sys1] and nu0 = sys_not_user[OF sys0]
  let ?L1 = "sys1 @ ms" and ?L0 = "sys0 @ ms"
  have ups: "user_positions ?L0 = user_positions ?L1"
    by (rule user_positions_append_sys[OF nu1 nu0 slen])
  have same: "\<And>i. i \<in> set (user_positions ?L1) \<Longrightarrow> ?L1 ! i = ?L0 ! i"
  proof -
    fix i assume "i \<in> set (user_positions ?L1)"
    from user_position_past_sys[OF nu1 this] show "?L1 ! i = ?L0 ! i"
      using slen by (simp add: nth_append)
  qed
  note good = add_system_all_ok[OF sys1 convert_messages_ok[OF ms]]
  note cp = cache_positions[OF good]
  have a: "length (messages r1) = length (messages r0)" using slen by (simp add: fin1 fin0)
  have b: "user_positions (messages r1) = user_positions (messages r0)"
    using cp(2) ups by (simp add: fin1 fin0)
  have c: "\<forall>i\<in>set (last_two (user_positions (messages r0))).
                     messages r1 ! i
                       = (messages r0 ! i)\<lparr>content := spec_mark_content (content (messages r0 ! i))\<rparr>
                   \<and> marked_on_last_text (messages r1 ! i)"
  proof
    fix i assume "i \<in> set (last_two (user_positions (messages r0)))"
    then have i: "i \<in> set (last_two (user_positions ?L1))" by (simp add: fin0 ups)
    then have "i \<in> set (user_positions ?L1)" by (simp add: last_two_drop) (meson in_set_dropD)
    note eq = same[OF this]
    from cp(3) i have x: "cache_last_two_users ?L1 ! i
          = (?L1 ! i)\<lparr>content := spec_mark_content (content (?L1 ! i))\<rparr>"
      and y: "marked_on_last_text (cache_last_two_users ?L1 ! i)" by blast+
    have "messages r1 ! i
            = (messages r0 ! i)\<lparr>content := spec_mark_content (content (messages r0 ! i))\<rparr>"
      unfolding fin1 fin0 x eq ..
    moreover have "marked_on_last_text (messages r1 ! i)" unfolding fin1 by (rule y)
    ultimately show "messages r1 ! i
                       = (messages r0 ! i)\<lparr>content := spec_mark_content (content (messages r0 ! i))\<rparr>
                   \<and> marked_on_last_text (messages r1 ! i)" by (rule conjI)
  qed
  have d: "\<forall>i\<in>set (user_positions (messages r0)).
                     i \<notin> set (last_two (user_positions (messages r0)))
                     \<longrightarrow> messages r1 ! i = messages r0 ! i"
  proof (intro ballI impI)
    fix i assume "i \<in> set (user_positions (messages r0))"
       and n: "i \<notin> set (last_two (user_positions (messages r0)))"
    then have i: "i \<in> set (user_positions ?L1)" by (simp add: fin0 ups)
    then have "i < length ?L1" using user_positions_props(2) by blast
    with cp(4) n have "cache_last_two_users ?L1 ! i = ?L1 ! i" by (simp add: fin0 ups)
    with same[OF i] show "messages r1 ! i = messages r0 ! i" by (simp add: fin1 fin0)
  qed
  have "length (filter is_user (messages r1)) = length (user_positions (messages r0))"
    using users_as_positions[of "messages r1"] b by simp
  with cache_users[OF good]
  have e: "length (filter has_marker (filter is_user (messages r1)))
                   = min (length (user_positions (messages r0))) 2"
    by (simp add: Let_def fin1)
  from off a b c d e
  show "\<exists>r0. convert_claude_to_openai lib ?off mm rq = Inr r0
               \<and> length (messages r1) = length (messages r0)
               \<and> user_positions (messages r1) = user_positions (messages r0)
               \<and> (\<forall>i\<in>set (last_two (user_positions (messages r0))).
                     messages r1 ! i
                       = (messages r0 ! i)\<lparr>content := spec_mark_content (content (messages r0 ! i))\<rparr>
                   \<and> marked_on_last_text (messages r1 ! i))
               \<and> (\<forall>i\<in>set (user_positions (messages r0)).
                     i \<notin> set (last_two (user_positions (messages r0)))
                     \<longrightarrow> messages r1 ! i = messages r0 ! i)
               \<and> length (filter has_marker (filter is_user (messages r1)))
                   = min (length (user_positions (messages r0))) 2"
    by blast
qed

lemma three_users_on:
  "map_sum id messages (convert_claude_to_openai lib_example
       ((config_from_env None None)\<lparr>supports_prompt_cache := Some True\<rparr>) id request_three_users) =
     Inr [plain_message ''system'' (OParts [TextPart ''Be brief'' (Some ''ephemeral'')]),
          plain_message ''user'' (OStr ''First''),
          plain_message ''assistant'' (OStr ''Reply''),
          plain_message ''user'' (OParts [TextPart ''Second'' (Some ''ephemeral'')]),
          plain_message ''user'' (OParts [TextPart ''Look at this image:'' None,
                                         ImageUrlPart ''data:image/jpeg;base64,base64data'',
                                         TextPart ''What do you see?'' (Some ''ephemeral'')])]"
  by (simp add: convert_claude_to_openai_def request_three_users_def lib_example_def
        convert_message_def Let_def add_system_def system_text_def strip_be_brief and_then_def
        read_cache_flag_def config_from_env_def
        cache_last_two_users_def user_positions_def last_two_def add_cache_control_def
        mark_parts_def plain_message_def convert_content_blocks_to_openai_def
        ROLE_USER_def ROLE_SYSTEM_def ROLE_ASSISTANT_def)

lemma three_users_off:
  "map_sum id messages (convert_claude_to_openai lib_example
       ((config_from_env None None)\<lparr>supports_prompt_cache := Some False\<rparr>) id request_three_users) =
     Inr [plain_message ''system'' (OStr ''Be brief''),
          plain_message ''user'' (OStr ''First''),
          plain_message ''assistant'' (OStr ''Reply''),
          plain_message ''user'' (OStr ''Second''),
          plain_message ''user'' (OParts [TextPart ''Look at this image:'' None,
                                         ImageUrlPart ''data:image/jpeg;base64,base64data'',
                                         TextPart ''What do you see?'' None])]"
  by (simp add: convert_claude_to_openai_def request_three_users_def lib_example_def
        convert_message_def Let_def add_system_def system_text_def strip_be_brief and_then_def
        read_cache_flag_def config_from_env_def
        plain_message_def convert_content_blocks_to_openai_def
        ROLE_USER_def ROLE_SYSTEM_def ROLE_ASSISTANT_def)

theorem cache_markers_witness:
  "\<exists>r1 r0.
      convert_claude_to_openai lib_example
        ((config_from_env None None)\<lparr>supports_prompt_cache := Some True\<rparr>) id request_three_users = Inr r1
    \<and> convert_claude_to_openai lib_example
        ((config_from_env None None)\<lparr>supports_prompt_cache := Some False\<rparr>) id request_three_users = Inr r0
    \<and> user_positions (messages r0) = [1, 3, 4]
    \<and> last_two (user_positions (messages r0)) = [3, 4]
    \<and> messages r1 ! 1 = plain_message ''user'' (OStr ''First'')
    \<and> messages r1 ! 3 = plain_message ''user'' (OParts [TextPart ''Second'' (Some ''ephemeral'')])
    \<and> messages r1 ! 4 = plain_message ''user''
          (OParts [TextPart ''Look at this image:'' None,
                   ImageUrlPart ''data:image/jpeg;base64,base64data'',
                   TextPart ''What do you see?'' (Some ''ephemeral'')])
    \<and> (\<forall>m\<in>set (messages r0). \<not> has_marker m)
    \<and> length (filter has_marker (filter is_user (messages r1))) = 2"
proof -
  let ?on = "(config_from_env None None)\<lparr>supports_prompt_cache := Some True\<rparr>"
  let ?off = "(config_from_env None None)\<lparr>supports_prompt_cache := Some False\<rparr>"
  from three_users_on obtain r1 where
    r1: "convert_claude_to_openai lib_example ?on id request_three_users = Inr r1"
    by (cases "convert_claude_to_openai lib_example ?on id request_three_users") auto
  note cm = cache_markers[of lib_example "config_from_env None None" id request_three_users]
  from cm r1 obtain r0 where
    r0: "convert_claude_to_openai lib_example ?off id request_three_users = Inr r0"
    and marked: "\<forall>i\<in>set (last_two (user_positions (messages r0))).
                     messages r1 ! i
                       = (messages r0 ! i)\<lparr>content := spec_mark_content (content (messages r0 ! i))\<rparr>"
    and kept: "\<forall>i\<in>set (user_positions (messages r0)).
                     i \<notin> set (last_two (user_positions (messages r0)))
                     \<longrightarrow> messages r1 ! i = messages r0 ! i"
    and count: "length (filter has_marker (filter is_user (messages r1)))
                   = min (length (user_positions (messages r0))) 2"
    by blast
  from cm r0 have unmarked: "\<forall>m\<in>set (messages r0). \<not> has_marker m" by blast
  from three_users_off r0 have m0: "messages r0 =
         [plain_message ''system'' (OStr ''Be brief''),
          plain_message ''user'' (OStr ''First''),
          plain_message ''assistant'' (OStr ''Reply''),
          plain_message ''user'' (OStr ''Second''),
          plain_message ''user'' (OParts [TextPart ''Look at this image:'' None,
                                         ImageUrlPart ''data:image/jpeg;base64,base64data'',
                                         TextPart ''What do you see?'' None])]"
    by simp
  have ups: "user_positions (messages r0) = [1, 3, 4]"
    by (simp add: m0 user_positions_def plain_message_def ROLE_USER_def)
  have l2: "last_two (user_positions (messages r0)) = [3, 4]" by (simp add: ups last_two_def)
  have l2r: "last_two [1, 3, 4::nat] = [3, 4]" by (simp add: last_two_def)
  have marked': "\<forall>i\<in>set [3, 4::nat]. messages r1 ! i
                       = (messages r0 ! i)\<lparr>content := spec_mark_content (content (messages r0 ! i))\<rparr>"
    using marked unfolding l2 .
  have kept': "\<forall>i\<in>set [1, 3, 4::nat]. i \<notin> set [3, 4::nat] \<longrightarrow> messages r1 ! i = messages r0 ! i"
    using kept unfolding ups l2r .
  have k1: "messages r1 ! 1 = plain_message ''user'' (OStr ''First'')"
    using kept' by (simp add: m0)
  have k3: "messages r1 ! 3 = plain_message ''user'' (OParts [TextPart ''Second'' (Some ''ephemeral'')])"
    using marked' by (simp add: m0 plain_message_def spec_mark_elements_def)
  have k4: "messages r1 ! 4 = plain_message ''user''
          (OParts [TextPart ''Look at this image:'' None,
                   ImageUrlPart ''data:image/jpeg;base64,base64data'',
                   TextPart ''What do you see?'' (Some ''ephemeral'')])"
    using marked' by (simp add: m0 plain_message_def spec_mark_elements_def)
  have c: "length (filter has_marker (filter is_user (messages r1))) = 2"
    using count by (simp add: ups)
  from r1 r0 ups l2 k1 k3 k4 unmarked c show ?thesis by blast
qed

section \<open>Properties of the response converter\<close>

lemma rb_Inr: "raises_builtin (Inr v)"
  by (simp add: raises_builtin_def)

lemma rb_and_then: "raises_builtin r \<Longrightarrow> (\<And>v. raises_builtin (f v)) \<Longrightarrow> raises_builtin (and_then r f)"
  by (cases r) (auto simp: raises_builtin_def and_then_def)

lemma rb_if: "(c \<Longrightarrow> raises_builtin a) \<Longrightarrow> (\<not> c \<Longrightarrow> raises_builtin b) \<Longrightarrow> raises_builtin (if c then a else b)"
  by simp

lemma rb_as_dict: "raises_builtin (as_dict v)"
  by (cases v) (auto simp: raises_builtin_def builtin_error_def)

lemma rb_as_str: "builtin_error e \<Longrightarrow> raises_builtin (as_str e v)"
  by (cases v) (auto simp: raises_builtin_def)

lemma rb_subscript0: "raises_builtin (subscript0 v)"
  by (induction v rule: subscript0.induct) (auto simp: raises_builtin_def builtin_error_def)

lemma rb_iterate: "raises_builtin (iterate v)"
  by (cases v) (auto simp: raises_builtin_def builtin_error_def)

lemma rb_gt_zero: "raises_builtin (gt_zero v)"
  by (cases v) (auto simp: raises_builtin_def builtin_error_def)

lemma rb_map_finish_reason: "raises_builtin (map_finish_reason v)"
  by (cases v) (auto simp: raises_builtin_def builtin_error_def)

lemma rb_collect_concat: "(\<And>x. raises_builtin (f x)) \<Longrightarrow> raises_builtin (collect_concat f xs)"
proof (induction xs)
  case Nil
  then show ?case by (simp add: raises_builtin_def)
next
  case (Cons x xs)
  from Cons.prems have "raises_builtin (f x)" .
  moreover from Cons have "raises_builtin (collect_concat f xs)" by simp
  ultimately show ?case by (auto simp: raises_builtin_def split: sum.splits)
qed

lemmas rb_intros = rb_Inr rb_and_then rb_if rb_as_dict rb_subscript0 rb_iterate rb_gt_zero
  rb_map_finish_reason

lemma builtin_errors: "builtin_error AttributeError" "builtin_error TypeError"
  by (simp_all add: builtin_error_def)

lemma rb_convert_content_item: "raises_builtin (convert_content_item lib v)"
  by (cases v) (auto simp: Let_def intro!: rb_intros rb_as_str builtin_errors)

lemma rb_convert_tool_call: "raises_builtin (convert_tool_call lib fresh v)"
  unfolding convert_tool_call_def by (intro rb_intros rb_as_str builtin_errors)

lemma rb_content_blocks_of: "raises_builtin (content_blocks_of lib v)"
  by (cases v) (auto intro!: rb_intros rb_collect_concat rb_convert_content_item)

lemma rb_eq_zero_if: "raises_builtin a \<Longrightarrow> raises_builtin b \<Longrightarrow> raises_builtin (if c then a else b)"
  by simp

lemma rb_read_cache_flag: "raises_builtin (read_cache_flag cfg)"
  by (cases "supports_prompt_cache cfg")
     (auto simp: read_cache_flag_def raises_builtin_def builtin_error_def)

lemma rb_cache_usage_data: "raises_builtin (cache_usage_data u d)"
  unfolding cache_usage_data_def Let_def by (intro rb_intros rb_eq_zero_if)

lemma rb_build_usage_data: "raises_builtin (build_usage_data cfg u)"
  unfolding build_usage_data_def Let_def
  by (intro rb_intros rb_read_cache_flag rb_cache_usage_data)

lemma no_choices_not_builtin: "\<not> builtin_error no_choices"
  by (simp add: builtin_error_def no_choices_def)

lemma convert_response_err:
  assumes "convert_openai_to_claude_response lib cfg fresh resp mdl = Inl e"
  shows "e = no_choices \<and> \<not> truthy (py_get resp ''choices'' (JList []))
       \<or> builtin_error e \<and> truthy (py_get resp ''choices'' (JList []))"
proof (cases "truthy (py_get resp ''choices'' (JList []))")
  case False
  with assms show ?thesis by (simp add: convert_openai_to_claude_response_def Let_def)
next
  case True
  have "raises_builtin (convert_openai_to_claude_response lib cfg fresh resp mdl)"
    unfolding convert_openai_to_claude_response_def Let_def using True
    by (simp only: if_True not_True_eq_False if_False)
       (intro rb_intros rb_collect_concat rb_convert_tool_call rb_content_blocks_of rb_build_usage_data)
  with assms True show ?thesis by (simp add: raises_builtin_def)
qed

lemma no_choices_iff:
  "convert_openai_to_claude_response lib cfg fresh resp mdl = Inl no_choices
     \<longleftrightarrow> \<not> truthy (py_get resp ''choices'' (JList []))"
proof
  assume "convert_openai_to_claude_response lib cfg fresh resp mdl = Inl no_choices"
  from convert_response_err[OF this] show "\<not> truthy (py_get resp ''choices'' (JList []))"
    using no_choices_not_builtin by blast
next
  assume "\<not> truthy (py_get resp ''choices'' (JList []))"
  then show "convert_openai_to_claude_response lib cfg fresh resp mdl = Inl no_choices"
    by (simp add: convert_openai_to_claude_response_def Let_def)
qed

lemma response_content_nonempty:
  assumes "convert_openai_to_claude_response lib cfg fresh resp mdl = Inr r"
  shows "\<exists>blocks. map_of r ''content'' = Some (JList blocks) \<and> blocks \<noteq> []"
  using assms unfolding convert_openai_to_claude_response_def Let_def
  by (auto simp: and_then_Inr split: if_splits)

text \<open>
  Claim C9, at a reply with one choice and \<open>"usage": null\<close>, under a configuration
  whose cache attribute is set (to \<open>False\<close>): the conversion raises \<open>AttributeError\<close>
  (\<open>usage.get\<close> on \<open>None\<close>, line 104, before the attribute is read) where the claim has
  it succeed. The two
  lemmas above hold for every reply: the \<open>HTTPException\<close> for no choices is raised exactly
  when \<open>choices\<close> is empty or missing, and a conversion that returns has at least one
  content block.
\<close>

theorem response_null_usage_raises:
  "truthy (py_get response_null_usage ''choices'' (JList []))
   \<and> convert_openai_to_claude_response lib_example cfg_cache_off ''u1'' response_null_usage ''claude-3''
       = Inl AttributeError"
  by (simp add: convert_openai_to_claude_response_def response_null_usage_def py_get_def Let_def
        and_then_def text_block_def STOP_END_TURN_def)

lemma response_hello_converts:
  "convert_openai_to_claude_response lib_example cfg_cache_off ''u1'' response_hello ''claude-3''
     = Inr [(''id'', JStr ''chatcmpl-1''), (''type'', JStr ''message''), (''role'', JStr ''assistant''),
            (''model'', JStr ''claude-3''),
            (''content'', JList [JDict [(''type'', JStr ''text''), (''text'', JStr [])]]),
            (''stop_reason'', JStr ''end_turn''), (''stop_sequence'', JNull),
            (''usage'', JDict [(''input_tokens'', JInt 5), (''output_tokens'', JInt 2)])]"
  by (simp add: convert_openai_to_claude_response_def response_hello_def py_get_def Let_def
        and_then_def text_block_def STOP_END_TURN_def build_usage_data_def cfg_cache_off_def read_cache_flag_def config_from_env_def
        CONTENT_TEXT_def ROLE_ASSISTANT_def)

end
